theory Spec2Isabelle
  imports Complex_Main "HOL-Library.Sublist"
begin

text \<open>
  A model of the LLM context exporter: the glob matcher and the binary-file test of
  \<^verbatim>\<open>FileTreeService\<close>, the validation of an export configuration, the export pipeline and
  the clipboard sink of \<^verbatim>\<open>ExportService\<close>, and the tri-state selection of the tree in the
  webview (\<^verbatim>\<open>media/main.js\<close>). The definitions follow the source function by function; the
  properties claimed of the program are stated and settled in the last section.
\<close>

section \<open>Pattern matcher (FileTreeService.matchesPattern, matchesPatterns)\<close>

text \<open>
  \<^verbatim>\<open>matchesPattern\<close> turns the glob into the source text of a regular expression by four
  global replacements applied one after the other, builds \<^verbatim>\<open>new RegExp('^' + regexPattern + '$')\<close>
  and tests the path against it. Each replacement works on the output of the previous one.
\<close>

fun replaceDot :: "string \<Rightarrow> string" where
  \<comment> \<open>\<^verbatim>\<open>.replace(/\./g, '\\.')\<close>\<close>
  "replaceDot [] = []"
| "replaceDot (c # cs) =
     (if c = CHR ''.'' then CHR 0x5C # CHR ''.'' # replaceDot cs else c # replaceDot cs)"

fun replaceDoubleStar :: "string \<Rightarrow> string" where
  \<comment> \<open>\<^verbatim>\<open>.replace(/\*\*/g, '.*')\<close>: leftmost, non-overlapping occurrences\<close>
  "replaceDoubleStar [] = []"
| "replaceDoubleStar [c] = [c]"
| "replaceDoubleStar (c # d # cs) =
     (if c = CHR ''*'' \<and> d = CHR ''*'' then CHR ''.'' # CHR ''*'' # replaceDoubleStar cs
      else c # replaceDoubleStar (d # cs))"

fun replaceStar :: "string \<Rightarrow> string" where
  \<comment> \<open>\<^verbatim>\<open>.replace(/\*/g, '[^/]*')\<close>\<close>
  "replaceStar [] = []"
| "replaceStar (c # cs) =
     (if c = CHR ''*'' then ''[^/]*'' @ replaceStar cs else c # replaceStar cs)"

fun replaceQuestion :: "string \<Rightarrow> string" where
  \<comment> \<open>\<^verbatim>\<open>.replace(/\?/g, '[^/]')\<close>\<close>
  "replaceQuestion [] = []"
| "replaceQuestion (c # cs) =
     (if c = CHR ''?'' then ''[^/]'' @ replaceQuestion cs else c # replaceQuestion cs)"

definition regexPattern :: "string \<Rightarrow> string" where
  "regexPattern pattern = replaceQuestion (replaceStar (replaceDoubleStar (replaceDot pattern)))"

text \<open>
  The regular expressions that the four replacements produce from a glob made of ordinary
  characters, \<^verbatim>\<open>.\<close>, \<^verbatim>\<open>*\<close> and \<^verbatim>\<open>?\<close> consist of four kinds of atoms. A regular expression
  text that uses any other syntax character is outside the modelled fragment (\<open>None\<close>).
\<close>

datatype atom =
    Lit char        \<comment> \<open>an ordinary character, or the escaped dot \<^verbatim>\<open>\.\<close>\<close>
  | AnyChar         \<comment> \<open>\<^verbatim>\<open>.\<close>: any character but a line terminator\<close>
  | NotSlash        \<comment> \<open>\<^verbatim>\<open>[^/]\<close>\<close>
  | NotSlashStar    \<comment> \<open>\<^verbatim>\<open>[^/]*\<close>\<close>

definition regexSyntaxChar :: "char \<Rightarrow> bool" where
  "regexSyntaxChar c = (c = CHR 0x5C \<or> c \<in> set ''^$.*+?()[]{}|'')"

fun parseRegExp :: "string \<Rightarrow> atom list option" where
  "parseRegExp [] = Some []"
| "parseRegExp (c # cs) =
     (if c = CHR 0x5C then
        (case cs of
           d # ds \<Rightarrow> if d = CHR ''.'' then map_option ((#) (Lit CHR ''.'')) (parseRegExp ds) else None
         | [] \<Rightarrow> None)
      else if c = CHR ''.'' then map_option ((#) AnyChar) (parseRegExp cs)
      else if c = CHR ''['' then
        (case cs of
           c1 # c2 # c3 # c4 # ds \<Rightarrow>
             if c1 = CHR ''^'' \<and> c2 = CHR ''/'' \<and> c3 = CHR '']'' \<and> c4 = CHR ''*''
             then map_option ((#) NotSlashStar) (parseRegExp ds)
             else if c1 = CHR ''^'' \<and> c2 = CHR ''/'' \<and> c3 = CHR '']''
             then map_option ((#) NotSlash) (parseRegExp (c4 # ds))
             else None
         | [c1, c2, c3] \<Rightarrow>
             if c1 = CHR ''^'' \<and> c2 = CHR ''/'' \<and> c3 = CHR '']'' then Some [NotSlash] else None
         | _ \<Rightarrow> None)
      else if regexSyntaxChar c then None
      else map_option ((#) (Lit c)) (parseRegExp cs))"

definition lineTerminator :: "char \<Rightarrow> bool" where
  "lineTerminator c = (c = CHR 0x0A \<or> c = CHR 0x0D)"

fun regexTest :: "atom list \<Rightarrow> string \<Rightarrow> bool" where
  \<comment> \<open>\<^verbatim>\<open>regex.test(filePath)\<close> for the anchored expression: the whole path must match\<close>
  "regexTest [] s = (s = [])"
| "regexTest (Lit c # as) [] = False"
| "regexTest (Lit c # as) (x # s) = (x = c \<and> regexTest as s)"
| "regexTest (AnyChar # as) [] = False"
| "regexTest (AnyChar # as) (x # s) = (\<not> lineTerminator x \<and> regexTest as s)"
| "regexTest (NotSlash # as) [] = False"
| "regexTest (NotSlash # as) (x # s) = (x \<noteq> CHR ''/'' \<and> regexTest as s)"
| "regexTest (NotSlashStar # as) [] = regexTest as []"
| "regexTest (NotSlashStar # as) (x # s) =
     (regexTest as (x # s) \<or> (x \<noteq> CHR ''/'' \<and> regexTest (NotSlashStar # as) s))"

definition matchesPattern :: "string \<Rightarrow> string \<Rightarrow> bool option" where
  "matchesPattern filePath pattern =
     map_option (\<lambda>regex. regexTest regex filePath) (parseRegExp (regexPattern pattern))"

fun matchesPatterns :: "string \<Rightarrow> string list \<Rightarrow> bool option" where
  \<comment> \<open>\<^verbatim>\<open>patterns.some(pattern => this.matchesPattern(filePath, pattern))\<close>\<close>
  "matchesPatterns filePath [] = Some False"
| "matchesPatterns filePath (pattern # patterns) =
     (case matchesPattern filePath pattern of
        None \<Rightarrow> None
      | Some True \<Rightarrow> Some True
      | Some False \<Rightarrow> matchesPatterns filePath patterns)"

subsection \<open>The glob language as the specification words it\<close>

text \<open>
  The specification's reading of a glob, for comparison with the source: \<^verbatim>\<open>**\<close> matches any
  sequence of characters (empty, and across separators), a single \<^verbatim>\<open>*\<close> any sequence of
  non-separator characters, \<^verbatim>\<open>?\<close> exactly one non-separator character, anything else
  itself; the whole path must match.
\<close>

datatype glob = GLit char | GDoubleStar | GStar | GQuestion

fun parseGlob :: "string \<Rightarrow> glob list" where
  "parseGlob [] = []"
| "parseGlob [c] = [if c = CHR ''*'' then GStar else if c = CHR ''?'' then GQuestion else GLit c]"
| "parseGlob (c # d # cs) =
     (if c = CHR ''*'' \<and> d = CHR ''*'' then GDoubleStar # parseGlob cs
      else (if c = CHR ''*'' then GStar else if c = CHR ''?'' then GQuestion else GLit c)
           # parseGlob (d # cs))"

fun globTest :: "glob list \<Rightarrow> string \<Rightarrow> bool" where
  "globTest [] s = (s = [])"
| "globTest (GLit c # gs) [] = False"
| "globTest (GLit c # gs) (x # s) = (x = c \<and> globTest gs s)"
| "globTest (GQuestion # gs) [] = False"
| "globTest (GQuestion # gs) (x # s) = (x \<noteq> CHR ''/'' \<and> globTest gs s)"
| "globTest (GStar # gs) [] = globTest gs []"
| "globTest (GStar # gs) (x # s) =
     (globTest gs (x # s) \<or> (x \<noteq> CHR ''/'' \<and> globTest (GStar # gs) s))"
| "globTest (GDoubleStar # gs) [] = globTest gs []"
| "globTest (GDoubleStar # gs) (x # s) =
     (globTest gs (x # s) \<or> globTest (GDoubleStar # gs) s)"

definition matches_spec :: "string \<Rightarrow> string \<Rightarrow> bool" where
  "matches_spec filePath pattern = globTest (parseGlob pattern) filePath"

section \<open>Content classifier (FileTreeService.isBinaryFile)\<close>

text \<open>
  \<^verbatim>\<open>path.extname\<close> of the Node library, POSIX flavour: trailing separators are ignored, the
  extension runs from the last dot of the last path segment to its end, and it is empty when
  the segment has no dot, when its only dot is its first character, or when the segment
  is \<^verbatim>\<open>..\<close>.
\<close>

definition stripTrailingSlashes :: "string \<Rightarrow> string" where
  "stripTrailingSlashes p = rev (dropWhile (\<lambda>c. c = CHR ''/'') (rev p))"

definition basename :: "string \<Rightarrow> string" where
  "basename p = rev (takeWhile (\<lambda>c. c \<noteq> CHR ''/'') (rev (stripTrailingSlashes p)))"

definition extname :: "string \<Rightarrow> string" where
  "extname p =
     (let b = basename p;
          afterDot = rev (takeWhile (\<lambda>c. c \<noteq> CHR ''.'') (rev b))
      in if CHR ''.'' \<notin> set b then []
         else if length afterDot + 1 = length b then []
         else if b = ''..'' then []
         else CHR ''.'' # afterDot)"

definition toLowerCase :: "string \<Rightarrow> string" where
  \<comment> \<open>on the ASCII letters\<close>
  "toLowerCase s =
     map (\<lambda>c. case map_of (zip ''ABCDEFGHIJKLMNOPQRSTUVWXYZ'' ''abcdefghijklmnopqrstuvwxyz'') c of
                Some l \<Rightarrow> l
              | None \<Rightarrow> c) s"

definition BINARY_EXTENSIONS :: "string list" where
  "BINARY_EXTENSIONS =
     [''.exe'', ''.dll'', ''.so'', ''.dylib'', ''.bin'', ''.obj'', ''.o'', ''.a'', ''.lib'',
      ''.jpg'', ''.jpeg'', ''.png'', ''.gif'', ''.bmp'', ''.ico'', ''.svg'', ''.webp'',
      ''.mp3'', ''.mp4'', ''.avi'', ''.mov'', ''.wmv'', ''.flv'', ''.webm'',
      ''.pdf'', ''.doc'', ''.docx'', ''.xls'', ''.xlsx'', ''.ppt'', ''.pptx'',
      ''.zip'', ''.rar'', ''.7z'', ''.tar'', ''.gz'', ''.bz2'']"

definition isBinaryFile :: "string \<Rightarrow> bool" where
  "isBinaryFile filePath = (toLowerCase (extname filePath) \<in> set BINARY_EXTENSIONS)"

section \<open>Export configuration and its validation (validateExportConfiguration)\<close>

text \<open>
  The validator receives an untyped object (a message payload or stored settings), so its
  fields are JavaScript values. Numbers are the finite reals together with \<^verbatim>\<open>NaN\<close> and the
  two infinities; an absent field is \<^verbatim>\<open>undefined\<close>.
\<close>

datatype jsval =
    JUndefined
  | JNull
  | JBool bool
  | JNum real
  | JNaN
  | JInfinity bool     \<comment> \<open>\<open>True\<close>: positive\<close>
  | JStr string
  | JArray "jsval list"
  | JObject

fun truthy :: "jsval \<Rightarrow> bool" where
  "truthy JUndefined = False"
| "truthy JNull = False"
| "truthy (JBool b) = b"
| "truthy (JNum r) = (r \<noteq> 0)"
| "truthy JNaN = False"
| "truthy (JInfinity _) = True"
| "truthy (JStr s) = (s \<noteq> [])"
| "truthy (JArray _) = True"
| "truthy JObject = True"

fun typeofNumber :: "jsval \<Rightarrow> bool" where
  \<comment> \<open>\<^verbatim>\<open>typeof v === 'number'\<close>\<close>
  "typeofNumber (JNum _) = True"
| "typeofNumber JNaN = True"
| "typeofNumber (JInfinity _) = True"
| "typeofNumber _ = False"

fun numLeZero :: "jsval \<Rightarrow> bool" where
  \<comment> \<open>\<^verbatim>\<open>v <= 0\<close> on a value whose type is number; every comparison with \<^verbatim>\<open>NaN\<close> is false\<close>
  "numLeZero (JNum r) = (r \<le> 0)"
| "numLeZero (JInfinity positive) = (\<not> positive)"
| "numLeZero _ = False"

fun isArray :: "jsval \<Rightarrow> bool" where
  "isArray (JArray _) = True"
| "isArray _ = False"

definition jsOr :: "jsval \<Rightarrow> jsval \<Rightarrow> jsval" where
  \<comment> \<open>\<^verbatim>\<open>a || b\<close>\<close>
  "jsOr a b = (if truthy a then a else b)"

definition nullish :: "jsval \<Rightarrow> jsval \<Rightarrow> jsval" where
  \<comment> \<open>\<^verbatim>\<open>a ?? b\<close>\<close>
  "nullish a b = (if a = JUndefined \<or> a = JNull then b else a)"

record raw_configuration =
  raw_format :: jsval
  raw_outputMethod :: jsval
  raw_includeDirectoryStructure :: jsval
  raw_maxFileSize :: jsval
  raw_excludePatterns :: jsval
  raw_includePatterns :: jsval
  raw_truncateThreshold :: jsval

datatype ValidationError = ValidationError string

fun joinWith :: "string \<Rightarrow> string list \<Rightarrow> string" where
  \<comment> \<open>\<^verbatim>\<open>errors.join(sep)\<close>\<close>
  "joinWith sep [] = []"
| "joinWith sep [x] = x"
| "joinWith sep (x # y # ys) = x @ sep @ joinWith sep (y # ys)"

definition validationErrors :: "raw_configuration \<Rightarrow> string list" where
  \<comment> \<open>the \<^verbatim>\<open>errors\<close> array after the six checks, in the order they are pushed\<close>
  \<open>validationErrors config =
     (if \<not> truthy (raw_format config) \<or> raw_format config \<notin> {JStr ''txt'', JStr ''md''}
      then [''Format must be either "txt" or "md"''] else []) @
     (if \<not> truthy (raw_outputMethod config)
         \<or> raw_outputMethod config \<notin> {JStr ''file'', JStr ''clipboard''}
      then [''Output method must be either "file" or "clipboard"''] else []) @
     (if raw_maxFileSize config \<noteq> JUndefined
         \<and> (\<not> typeofNumber (raw_maxFileSize config) \<or> numLeZero (raw_maxFileSize config))
      then [''maxFileSize must be a positive number''] else []) @
     (if raw_truncateThreshold config \<noteq> JUndefined
         \<and> (\<not> typeofNumber (raw_truncateThreshold config) \<or> numLeZero (raw_truncateThreshold config))
      then [''truncateThreshold must be a positive number''] else []) @
     (if truthy (raw_excludePatterns config) \<and> \<not> isArray (raw_excludePatterns config)
      then [''excludePatterns must be an array of strings''] else []) @
     (if truthy (raw_includePatterns config) \<and> \<not> isArray (raw_includePatterns config)
      then [''includePatterns must be an array of strings''] else [])\<close>

definition validateExportConfiguration ::
  "raw_configuration \<Rightarrow> ValidationError + raw_configuration" where
  "validateExportConfiguration config =
     (let errors = validationErrors config in
      if length errors > 0
      then Inl (ValidationError (''Configuration validation failed: '' @ joinWith '', '' errors))
      else Inr \<lparr> raw_format = jsOr (raw_format config) (JStr ''txt''),
                 raw_outputMethod = jsOr (raw_outputMethod config) (JStr ''file''),
                 raw_includeDirectoryStructure =
                   nullish (raw_includeDirectoryStructure config) (JBool True),
                 raw_maxFileSize = jsOr (raw_maxFileSize config) (JNum (1024 * 1024)),
                 raw_excludePatterns = jsOr (raw_excludePatterns config) (JArray []),
                 raw_includePatterns = jsOr (raw_includePatterns config) (JArray []),
                 raw_truncateThreshold =
                   jsOr (raw_truncateThreshold config) (JNum (10 * 1024 * 1024)) \<rparr>)"

text \<open>
  A strictly positive number, in the words of the specification.
\<close>

fun strictlyPositiveNumber :: "jsval \<Rightarrow> bool" where
  "strictlyPositiveNumber (JNum r) = (0 < r)"
| "strictlyPositiveNumber (JInfinity positive) = positive"
| "strictlyPositiveNumber _ = False"

section \<open>Export pipeline (ExportService)\<close>

datatype export_format = Txt | Md

datatype output_method = FileOutput | Clipboard

record ExportConfiguration =
  format :: export_format
  outputMethod :: output_method
  includeDirectoryStructure :: bool
  maxFileSize :: nat
  excludePatterns :: "string list"
  includePatterns :: "string list"
  truncateThreshold :: nat

text \<open>
  What the pipeline asks of its surroundings. \<open>isDirectory\<close> is the answer of
  \<^verbatim>\<open>FileTreeService.isDirectory\<close> (false on every error); \<open>getFileStats\<close> and
  \<open>getFileContent\<close> either throw (\<open>Inl\<close>, with the message of the thrown error) or return
  the size in bytes and the decoded text. \<open>renderPathTree\<close> stands for
  \<^verbatim>\<open>renderTree(buildPathTree(validFiles))\<close>, whose text (box-drawing characters, ordered by
  \<^verbatim>\<open>localeCompare\<close>) is kept abstract; \<open>now\<close> is the ISO timestamp.
\<close>

record host =
  isDirectory :: "string \<Rightarrow> bool"
  getFileStats :: "string \<Rightarrow> string + nat"
  getFileContent :: "string \<Rightarrow> string + string"
  renderPathTree :: "string list \<Rightarrow> string"
  now :: string

fun filterValidFilesLoop :: "host \<Rightarrow> string list \<Rightarrow> string list \<Rightarrow> string list" where
  \<comment> \<open>the \<^verbatim>\<open>for (const filePath of selectedPaths)\<close> loop; the accumulator is \<^verbatim>\<open>validFiles\<close>\<close>
  "filterValidFilesLoop h [] validFiles = validFiles"
| "filterValidFilesLoop h (filePath # rest) validFiles =
     (if isDirectory h filePath then filterValidFilesLoop h rest validFiles
      else if isBinaryFile filePath then filterValidFilesLoop h rest validFiles
      else filterValidFilesLoop h rest (validFiles @ [filePath]))"

definition filterValidFiles :: "host \<Rightarrow> string list \<Rightarrow> string list" where
  "filterValidFiles h selectedPaths = filterValidFilesLoop h selectedPaths []"

fun string_of_nat :: "nat \<Rightarrow> string" where
  \<comment> \<open>a number interpolated into a template string\<close>
  "string_of_nat n =
     (if n < 10 then [''0123456789'' ! n]
      else string_of_nat (n div 10) @ [''0123456789'' ! (n mod 10)])"

declare string_of_nat.simps [simp del]

definition languageMap :: "(string \<times> string) list" where
  "languageMap =
     [(''.js'', ''javascript''), (''.ts'', ''typescript''), (''.jsx'', ''jsx''), (''.tsx'', ''tsx''),
      (''.py'', ''python''), (''.java'', ''java''), (''.c'', ''c''), (''.cpp'', ''cpp''),
      (''.cs'', ''csharp''), (''.php'', ''php''), (''.rb'', ''ruby''), (''.go'', ''go''),
      (''.rs'', ''rust''), (''.swift'', ''swift''), (''.kt'', ''kotlin''), (''.scala'', ''scala''),
      (''.html'', ''html''), (''.css'', ''css''), (''.scss'', ''scss''), (''.sass'', ''sass''),
      (''.less'', ''less''), (''.xml'', ''xml''), (''.json'', ''json''), (''.yaml'', ''yaml''),
      (''.yml'', ''yaml''), (''.toml'', ''toml''), (''.ini'', ''ini''), (''.cfg'', ''ini''),
      (''.conf'', ''ini''), (''.sh'', ''bash''), (''.bash'', ''bash''), (''.zsh'', ''zsh''),
      (''.fish'', ''fish''), (''.ps1'', ''powershell''), (''.sql'', ''sql''), (''.md'', ''markdown''),
      (''.dockerfile'', ''dockerfile''), (''.gitignore'', ''gitignore''), (''.env'', ''bash'')]"

definition getLanguageFromExtension :: "string \<Rightarrow> string" where
  "getLanguageFromExtension extension =
     (case map_of languageMap (toLowerCase extension) of Some l \<Rightarrow> l | None \<Rightarrow> [])"

definition separator :: "string \<Rightarrow> string" where
  \<comment> \<open>\<^verbatim>\<open>'='.repeat(Math.min(filePath.length + 10, 80))\<close>\<close>
  "separator filePath = replicate (min (length filePath + 10) 80) CHR ''=''"

definition formatFileContent :: "string \<Rightarrow> string \<Rightarrow> export_format \<Rightarrow> string" where
  "formatFileContent filePath content fmt =
     (case fmt of
        Md \<Rightarrow> ''## File: '' @ filePath @ ''\<newline>\<newline>```''
               @ getLanguageFromExtension (extname filePath) @ ''\<newline>'' @ content
               @ ''\<newline>```\<newline>\<newline>''
      | Txt \<Rightarrow> separator filePath @ ''\<newline>File: '' @ filePath @ ''\<newline>''
               @ separator filePath @ ''\<newline>\<newline>'' @ content @ ''\<newline>\<newline>'')"

definition formatError :: "string \<Rightarrow> string \<Rightarrow> export_format \<Rightarrow> string" where
  "formatError filePath errorMessage fmt =
     (case fmt of
        Md \<Rightarrow> ''## File: '' @ filePath @ ''\<newline>\<newline>**Error**: '' @ errorMessage
               @ ''\<newline>\<newline>''
      | Txt \<Rightarrow> separator filePath @ ''\<newline>File: '' @ filePath @ ''\<newline>''
               @ separator filePath @ ''\<newline>\<newline>Error: '' @ errorMessage
               @ ''\<newline>\<newline>'')"

definition truncationMarker :: string where
  "truncationMarker = ''\<newline>\<newline>[... Content truncated due to size limit ...]''"

record processed_file =
  pf_content :: string
  pf_size :: nat
  pf_truncated :: bool

definition processFile :: "host \<Rightarrow> string \<Rightarrow> ExportConfiguration \<Rightarrow> string + processed_file" where
  \<comment> \<open>\<^verbatim>\<open>Math.floor(maxFileSize * 0.8)\<close> is \<open>4 * maxFileSize div 5\<close> on a whole number of bytes\<close>
  "processFile h filePath configuration =
     (case getFileStats h filePath of
        Inl err \<Rightarrow> Inl err
      | Inr statsSize \<Rightarrow>
          (case getFileContent h filePath of
             Inl err \<Rightarrow> Inl err
           | Inr fileContent \<Rightarrow>
               if statsSize > maxFileSize configuration then
                 let truncateAt = (maxFileSize configuration * 4) div 5 in
                 Inr \<lparr> pf_content = formatFileContent filePath
                                       (take truncateAt fileContent @ truncationMarker)
                                       (format configuration),
                       pf_size = statsSize, pf_truncated = True \<rparr>
               else
                 Inr \<lparr> pf_content = formatFileContent filePath fileContent (format configuration),
                       pf_size = statsSize, pf_truncated = False \<rparr>))"

definition generateHeader :: "host \<Rightarrow> ExportConfiguration \<Rightarrow> string" where
  "generateHeader h configuration =
     (case format configuration of
        Md \<Rightarrow> ''# LLM Context Export\<newline>\<newline>Generated on: '' @ now h
               @ ''\<newline>\<newline>---\<newline>\<newline>''
      | Txt \<Rightarrow> ''LLM Context Export\<newline>Generated on: '' @ now h @ ''\<newline>\<newline>''
               @ replicate 50 CHR ''='' @ ''\<newline>\<newline>'')"

definition generateFooter :: "ExportConfiguration \<Rightarrow> nat \<Rightarrow> nat \<Rightarrow> string list \<Rightarrow> string" where
  \<comment> \<open>\<^verbatim>\<open>Math.round(totalSize / 1024)\<close> rounds half up\<close>
  "generateFooter configuration totalFiles totalSize truncatedFiles =
     (let sizeInKB = (totalSize + 512) div 1024 in
      case format configuration of
        Md \<Rightarrow> ''\<newline>---\<newline>\<newline>## Export Summary\<newline>\<newline>''
               @ ''- **Total Files**: '' @ string_of_nat totalFiles @ ''\<newline>''
               @ ''- **Total Size**: '' @ string_of_nat sizeInKB @ '' KB\<newline>''
               @ (if length truncatedFiles > 0
                  then ''- **Truncated Files**: '' @ string_of_nat (length truncatedFiles)
                       @ ''\<newline>\<newline>'' @ ''### Truncated Files:\<newline>''
                       @ concat (map (\<lambda>file. ''- '' @ file @ ''\<newline>'') truncatedFiles)
                  else [])
      | Txt \<Rightarrow> ''\<newline>'' @ replicate 50 CHR ''='' @ ''\<newline>\<newline>''
               @ ''Export Summary:\<newline>''
               @ ''- Total Files: '' @ string_of_nat totalFiles @ ''\<newline>''
               @ ''- Total Size: '' @ string_of_nat sizeInKB @ '' KB\<newline>''
               @ (if length truncatedFiles > 0
                  then ''- Truncated Files: '' @ string_of_nat (length truncatedFiles)
                       @ ''\<newline>\<newline>'' @ ''Truncated Files:\<newline>''
                       @ concat (map (\<lambda>file. ''  - '' @ file @ ''\<newline>'') truncatedFiles)
                  else []))"

definition generateDirectoryStructure :: "host \<Rightarrow> string list \<Rightarrow> string" where
  "generateDirectoryStructure h selectedPaths =
     ''## Directory Structure\<newline>\<newline>```\<newline>''
     @ renderPathTree h (filterValidFiles h selectedPaths) @ ''\<newline>```\<newline>\<newline>''"

subsection \<open>generateExport\<close>

text \<open>
  The local variables of \<^verbatim>\<open>generateExport\<close>, and the values it has passed to
  \<^verbatim>\<open>progressCallback\<close> so far (oldest first).
\<close>

record export_vars =
  contentChunks :: "string list"
  currentChunkSize :: nat
  truncatedFiles' :: "string list"
  totalFiles' :: nat
  totalSize' :: nat
  reported :: "real list"

definition CHUNK_SIZE_LIMIT :: nat where
  "CHUNK_SIZE_LIMIT = 1024 * 1024"

definition BATCH_SIZE :: nat where
  "BATCH_SIZE = 10"

definition appendToLastChunk :: "string list \<Rightarrow> string \<Rightarrow> string list" where
  \<comment> \<open>\<^verbatim>\<open>contentChunks[contentChunks.length - 1] += s\<close>; on an empty array the assignment
      creates the property \<^verbatim>\<open>-1\<close>, which is no element of the array\<close>
  "appendToLastChunk chunks s =
     (if chunks = [] then chunks else butlast chunks @ [last chunks @ s])"

definition progressCallback :: "real \<Rightarrow> export_vars \<Rightarrow> export_vars" where
  "progressCallback p v = v\<lparr> reported := reported v @ [p] \<rparr>"

definition addStructure :: "string \<Rightarrow> export_vars \<Rightarrow> export_vars" where
  \<comment> \<open>also the shape of the \<^verbatim>\<open>catch\<close> branch, which adds the error block\<close>
  "addStructure s v =
     (if currentChunkSize v + length s > CHUNK_SIZE_LIMIT
      then v\<lparr> contentChunks := contentChunks v @ [s], currentChunkSize := length s \<rparr>
      else v\<lparr> contentChunks := appendToLastChunk (contentChunks v) s,
               currentChunkSize := currentChunkSize v + length s \<rparr>)"

definition addFileContent :: "string \<Rightarrow> export_vars \<Rightarrow> export_vars" where
  "addFileContent s v =
     (if currentChunkSize v + length s > CHUNK_SIZE_LIMIT
      then v\<lparr> contentChunks := contentChunks v @ [s], currentChunkSize := length s \<rparr>
      else v\<lparr> contentChunks := (if length (contentChunks v) = 0 then contentChunks v @ [s]
                                   else appendToLastChunk (contentChunks v) s),
               currentChunkSize := currentChunkSize v + length s \<rparr>)"

definition addFooter :: "string \<Rightarrow> export_vars \<Rightarrow> export_vars" where
  "addFooter s v =
     (if currentChunkSize v + length s > CHUNK_SIZE_LIMIT
      then v\<lparr> contentChunks := contentChunks v @ [s] \<rparr>
      else v\<lparr> contentChunks := appendToLastChunk (contentChunks v) s \<rparr>)"

definition processOne ::
  "host \<Rightarrow> ExportConfiguration \<Rightarrow> nat \<Rightarrow> nat \<Rightarrow> string \<Rightarrow> export_vars \<Rightarrow> export_vars" where
  \<comment> \<open>one turn of the inner loop: \<open>n\<close> is \<^verbatim>\<open>validFiles.length\<close>, \<open>k\<close> is \<^verbatim>\<open>batchStart + i\<close>\<close>
  "processOne h configuration n k filePath v =
     (let v1 = progressCallback (20 + (real k / real n) * 70) v in
      case processFile h filePath configuration of
        Inr fileContent \<Rightarrow>
          (let v2 = (if pf_truncated fileContent
                     then v1\<lparr> truncatedFiles' := truncatedFiles' v1 @ [filePath] \<rparr> else v1);
               v3 = addFileContent (pf_content fileContent) v2
           in v3\<lparr> totalFiles' := totalFiles' v3 + 1,
                  totalSize' := totalSize' v3 + pf_size fileContent \<rparr>)
      | Inl message \<Rightarrow> addStructure (formatError filePath message (format configuration)) v1)"

fun processBatch ::
  "host \<Rightarrow> ExportConfiguration \<Rightarrow> nat \<Rightarrow> nat \<Rightarrow> string list \<Rightarrow> nat \<Rightarrow> export_vars \<Rightarrow> export_vars"
  where
  \<comment> \<open>\<^verbatim>\<open>for (let i = 0; i < batch.length; i++)\<close>, on the files of the batch from index \<open>i\<close> on\<close>
  "processBatch h configuration n batchStart [] i v = v"
| "processBatch h configuration n batchStart (filePath # rest) i v =
     processBatch h configuration n batchStart rest (Suc i)
       (processOne h configuration n (batchStart + i) filePath v)"

function processBatches ::
  "host \<Rightarrow> ExportConfiguration \<Rightarrow> string list \<Rightarrow> nat \<Rightarrow> export_vars \<Rightarrow> export_vars" where
  \<comment> \<open>\<^verbatim>\<open>for (let batchStart = 0; batchStart < validFiles.length; batchStart += BATCH_SIZE)\<close>\<close>
  "processBatches h configuration validFiles batchStart v =
     (if batchStart < length validFiles then
        let batchEnd = min (batchStart + BATCH_SIZE) (length validFiles);
            batch = take (batchEnd - batchStart) (drop batchStart validFiles)
        in processBatches h configuration validFiles (batchStart + BATCH_SIZE)
             (processBatch h configuration (length validFiles) batchStart batch 0 v)
      else v)"
  by pat_completeness auto
termination
  by (relation "measure (\<lambda>(h, c, validFiles, batchStart, v). length validFiles - batchStart)")
     (auto simp: BATCH_SIZE_def)

declare processBatches.simps [simp del]

record metadata =
  totalFiles :: nat
  totalSize :: nat
  generatedAt :: string
  truncatedFiles :: "string list"

record ExportResult =
  content :: string
  metadata :: metadata

definition exportVars :: "host \<Rightarrow> string list \<Rightarrow> ExportConfiguration \<Rightarrow> export_vars" where
  \<comment> \<open>the variables of \<^verbatim>\<open>generateExport\<close> when it reaches its \<^verbatim>\<open>return\<close>\<close>
  "exportVars h selectedPaths configuration =
     (let header = generateHeader h configuration;
          v0 = \<lparr> contentChunks = [header], currentChunkSize = length header,
                 truncatedFiles' = [], totalFiles' = 0, totalSize' = 0, reported = [] \<rparr>;
          v1 = (if includeDirectoryStructure configuration
                then addStructure (generateDirectoryStructure h selectedPaths)
                       (progressCallback 10 v0)
                else v0);
          validFiles = filterValidFiles h selectedPaths;
          v2 = processBatches h configuration validFiles 0 v1;
          footer = generateFooter configuration (totalFiles' v2) (totalSize' v2) (truncatedFiles' v2);
          v3 = addFooter footer v2;
          v4 = progressCallback 95 v3
      in progressCallback 100 v4)"

definition generateExport ::
  "host \<Rightarrow> string list \<Rightarrow> ExportConfiguration \<Rightarrow> ExportResult \<times> real list" where
  \<comment> \<open>the returned object, and the progress values reported during the call\<close>
  "generateExport h selectedPaths configuration =
     (let v = exportVars h selectedPaths configuration in
      (\<lparr> content = concat (contentChunks v),
         metadata = \<lparr> totalFiles = totalFiles' v, totalSize = totalSize' v,
                      generatedAt = now h, truncatedFiles = truncatedFiles' v \<rparr> \<rparr>,
       reported v))"

text \<open>
  The eligible files as the specification words them: the selected paths that are no
  directories, not binary by extension, match no exclude pattern and, when there are include
  patterns, match one of them.
\<close>

definition eligible_spec :: "host \<Rightarrow> ExportConfiguration \<Rightarrow> string list \<Rightarrow> string list" where
  "eligible_spec h configuration selectedPaths =
     filter (\<lambda>p. \<not> isDirectory h p \<and> \<not> isBinaryFile p
                 \<and> matchesPatterns p (excludePatterns configuration) \<noteq> Some True
                 \<and> (includePatterns configuration = []
                     \<or> matchesPatterns p (includePatterns configuration) = Some True))
       selectedPaths"

text \<open>
  Vocabulary for stating what a run did with one eligible file: the text it emitted for the
  file, whether the file was processed without an exception, and the size the file system
  reported for it.
\<close>

definition fileBlock :: "host \<Rightarrow> ExportConfiguration \<Rightarrow> string \<Rightarrow> string" where
  "fileBlock h configuration filePath =
     (case processFile h filePath configuration of
        Inr fileContent \<Rightarrow> pf_content fileContent
      | Inl message \<Rightarrow> formatError filePath message (format configuration))"

definition processed :: "host \<Rightarrow> ExportConfiguration \<Rightarrow> string \<Rightarrow> bool" where
  "processed h configuration filePath =
     (case processFile h filePath configuration of Inr fileContent \<Rightarrow> True | Inl message \<Rightarrow> False)"

definition wasTruncated :: "host \<Rightarrow> ExportConfiguration \<Rightarrow> string \<Rightarrow> bool" where
  "wasTruncated h configuration filePath =
     (case processFile h filePath configuration of
        Inr fileContent \<Rightarrow> pf_truncated fileContent
      | Inl message \<Rightarrow> False)"

definition statSize :: "host \<Rightarrow> string \<Rightarrow> nat" where
  "statSize h filePath = (case getFileStats h filePath of Inr n \<Rightarrow> n | Inl message \<Rightarrow> 0)"

definition readable :: "host \<Rightarrow> string \<Rightarrow> bool" where
  \<comment> \<open>the file system delivers both the size and the content of the file\<close>
  "readable h filePath =
     (case getFileStats h filePath of
        Inl message \<Rightarrow> False
      | Inr byteLength \<Rightarrow>
          (case getFileContent h filePath of Inl message \<Rightarrow> False | Inr text \<Rightarrow> True))"

definition fileProgress :: "nat \<Rightarrow> nat \<Rightarrow> real" where
  \<comment> \<open>the value reported for the file with index \<open>k\<close> of \<open>n\<close>\<close>
  "fileProgress n k = 20 + (real k / real n) * 70"

definition ranOver ::
  "host \<Rightarrow> ExportConfiguration \<Rightarrow> nat \<Rightarrow> nat \<Rightarrow> string list \<Rightarrow> export_vars \<Rightarrow> export_vars \<Rightarrow> bool"
  where
  \<comment> \<open>\<open>v'\<close> is \<open>v\<close> after the files \<open>fs\<close>, the first of which has index \<open>k\<close>\<close>
  "ranOver h c n k fs v v' =
     (contentChunks v' \<noteq> []
      \<and> concat (contentChunks v') = concat (contentChunks v) @ concat (map (fileBlock h c) fs)
      \<and> truncatedFiles' v' = truncatedFiles' v @ filter (wasTruncated h c) fs
      \<and> totalFiles' v' = totalFiles' v + length (filter (processed h c) fs)
      \<and> totalSize' v' = totalSize' v + sum_list (map (statSize h) (filter (processed h c) fs))
      \<and> reported v' = reported v @ map (fileProgress n) [k..<k + length fs])"

section \<open>Sink dispatcher (ExportService.copyToClipboard, copyToClipboardWithProgress)\<close>

datatype thrown = Error string | NotAnError

text \<open>
  The answers of the editor to one clipboard operation: whether the user chose
  \<^verbatim>\<open>Continue\<close> on the large-content warning, what \<^verbatim>\<open>clipboard.writeText\<close> does with a
  given text (\<open>None\<close>: it resolves), whether the user chose \<^verbatim>\<open>Save as File\<close>, what the save
  dialog returns, and what \<^verbatim>\<open>fs.writeFile\<close> does.
\<close>

record sink =
  continueLarge :: bool
  writeText :: "string \<Rightarrow> thrown option"
  saveAsFile :: bool
  showSaveDialog :: "thrown + string option"
  writeFile :: "string \<Rightarrow> string \<Rightarrow> thrown option"

text \<open>
  The calls by which an operation reaches outside the program, in the order in which it makes
  them, whether they resolve or throw: \<^verbatim>\<open>clipboard.writeText(text)\<close> and
  \<^verbatim>\<open>fs.writeFile(uri, buffer)\<close> (recorded with the text that follows the byte-order mark
  in the buffer).
\<close>

datatype sink_call = WriteText string | WriteFile string string

record clipboard_result =
  success :: bool
  error :: "string option"
  fallbackUsed :: "bool option"

definition clipboardMarker :: string where
  "clipboardMarker = ''\<newline>\<newline>[... Content truncated for clipboard compatibility ...]''"

definition copyToClipboard :: "sink \<Rightarrow> string \<Rightarrow> clipboard_result \<times> sink_call list" where
  \<comment> \<open>the returned object and the calls made\<close>
  "copyToClipboard s text =
     (case writeText s text of
        None \<Rightarrow> (\<lparr> success = True, error = None, fallbackUsed = None \<rparr>, [WriteText text])
      | Some primaryError \<Rightarrow>
          let truncatedContent = take (1024 * 1024) text @ clipboardMarker in
          if length text > 1024 * 1024 \<and> writeText s truncatedContent = None
          then (\<lparr> success = True, error = None, fallbackUsed = Some True \<rparr>,
                [WriteText text, WriteText truncatedContent])
          else
            let calls = (if length text > 1024 * 1024
                         then [WriteText text, WriteText truncatedContent]
                         else [WriteText text]);
                errorMessage = (case primaryError of Error m \<Rightarrow> m
                                | NotAnError \<Rightarrow> ''Unknown clipboard error'');
                failed = \<lparr> success = False,
                           error = Some (''Clipboard operation failed: '' @ errorMessage),
                           fallbackUsed = None \<rparr>
            in if saveAsFile s then
                 (case showSaveDialog s of
                    Inr (Some saveUri) \<Rightarrow>
                      (case writeFile s saveUri text of
                         None \<Rightarrow> (\<lparr> success = True, error = None, fallbackUsed = Some True \<rparr>,
                                  calls @ [WriteFile saveUri text])
                       | Some saveError \<Rightarrow> (failed, calls @ [WriteFile saveUri text]))
                  | Inr None \<Rightarrow> (failed, calls)
                  | Inl saveError \<Rightarrow> (failed, calls))
               else (failed, calls))"

definition copyToClipboardWithProgress ::
  "sink \<Rightarrow> string \<Rightarrow> clipboard_result \<times> real list \<times> sink_call list" where
  \<comment> \<open>the returned object, the progress values reported and the calls made;
      \<^verbatim>\<open>content.length / (1024 * 1024) > 10\<close> is \<open>length text > 10 * (1024 * 1024)\<close>\<close>
  "copyToClipboardWithProgress s text =
     (if length text > 10 * (1024 * 1024) \<and> \<not> continueLarge s
      then (\<lparr> success = False, error = Some ''Operation cancelled by user'',
              fallbackUsed = None \<rparr>, [0], [])
      else (let (result, calls) = copyToClipboard s text in (result, [0, 50, 100], calls)))"

definition generateAndExport ::
  "host \<Rightarrow> sink \<Rightarrow> string list \<Rightarrow> ExportConfiguration
   \<Rightarrow> ExportResult \<times> clipboard_result option \<times> real list" where
  \<comment> \<open>the export result, \<^verbatim>\<open>clipboardResult\<close> when there is one, and every progress value
      the caller's callback received\<close>
  "generateAndExport h s selectedPaths configuration =
     (let (exportResult, reported1) = generateExport h selectedPaths configuration in
      if outputMethod configuration = Clipboard then
        let (clipboardResult, reported2, calls) =
              copyToClipboardWithProgress s (content exportResult)
        in (exportResult, Some clipboardResult,
            reported1 @ [95] @ map (\<lambda>progress. 95 + progress * 0.05) reported2)
      else (exportResult, None, reported1))"

section \<open>Tree model and selection engine (media/main.js)\<close>

text \<open>
  A node of \<^verbatim>\<open>workspaceTree\<close> with the fields the selection code reads and writes.
  \<open>children = None\<close> is an absent \<^verbatim>\<open>children\<close> property (a file); a directory carries
  an array, which is empty when the directory is empty or was built without its children. The set \<^verbatim>\<open>selectedPaths\<close> and the
  messages to the extension (\<^verbatim>\<open>updateSelectionState\<close>) are left out: the functions below
  write them and never read them.
\<close>

datatype node_type = File | Directory

datatype node =
  Node (path: string) (ntype: node_type) (children: "node list option")
       (selected: bool) (indeterminate: bool) (expanded: bool)

fun setSelection :: "bool \<Rightarrow> bool \<Rightarrow> node \<Rightarrow> node" where
  \<comment> \<open>\<^verbatim>\<open>node.selected = sel; node.indeterminate = ind\<close>\<close>
  "setSelection sel ind (Node p ty ch s i e) = Node p ty ch sel ind e"

fun setSelected :: "bool \<Rightarrow> node \<Rightarrow> node" where
  \<comment> \<open>\<^verbatim>\<open>node.selected = sel\<close>\<close>
  "setSelected sel (Node p ty ch s i e) = Node p ty ch sel i e"

fun attachChildren :: "node list \<Rightarrow> node \<Rightarrow> node" where
  \<comment> \<open>\<^verbatim>\<open>node.children = children; node.expanded = true\<close>\<close>
  "attachChildren cs (Node p ty ch s i e) = Node p ty (Some cs) s i True"


fun findParentNode :: "node list \<Rightarrow> string \<Rightarrow> node option" where
  "findParentNode [] childPath = None"
| "findParentNode (Node p ty ch s i e # nodes) childPath =
     (case ch of
        None \<Rightarrow> findParentNode nodes childPath
      | Some cs \<Rightarrow>
          if list_ex (\<lambda>child. path child = childPath) cs then Some (Node p ty ch s i e)
          else (case findParentNode cs childPath of
                  Some found \<Rightarrow> Some found
                | None \<Rightarrow> findParentNode nodes childPath))"


fun modifyParentNode :: "(node \<Rightarrow> node) \<Rightarrow> node list \<Rightarrow> string \<Rightarrow> node list" where
  "modifyParentNode f [] childPath = []"
| "modifyParentNode f (Node p ty ch s i e # nodes) childPath =
     (case ch of
        None \<Rightarrow> Node p ty ch s i e # modifyParentNode f nodes childPath
      | Some cs \<Rightarrow>
          if list_ex (\<lambda>child. path child = childPath) cs then f (Node p ty ch s i e) # nodes
          else (case findParentNode cs childPath of
                  Some found \<Rightarrow> Node p ty (Some (modifyParentNode f cs childPath)) s i e # nodes
                | None \<Rightarrow> Node p ty ch s i e # modifyParentNode f nodes childPath))"

lemma size_setSelection [simp]: "size (setSelection sel ind n) = size n"
  by (cases n) simp

fun updateChildSelection :: "node \<Rightarrow> bool \<Rightarrow> node" where
  \<comment> \<open>the node with the flags of all its loaded descendants overwritten\<close>
  "updateChildSelection (Node p ty ch s i e) sel =
     Node p ty
       (map_option
          (map (\<lambda>child.
             let child' = setSelection sel False child
             in if ntype child' = Directory then updateChildSelection child' sel else child'))
          ch)
       s i e"

definition setFromChildren :: "node \<Rightarrow> node" where
  \<comment> \<open>the assignment to \<^verbatim>\<open>parentNode\<close> in \<^verbatim>\<open>updateParentSelection\<close>\<close>
  "setFromChildren parentNode =
     (let cs = (case children parentNode of Some cs \<Rightarrow> cs | None \<Rightarrow> []);
          allChildrenSelected = list_all selected cs;
          noChildrenSelected = list_all (\<lambda>child. \<not> selected child \<and> \<not> indeterminate child) cs;
          someChildrenSelected = list_ex (\<lambda>child. selected child \<or> indeterminate child) cs
      in if allChildrenSelected then setSelection True False parentNode
         else if noChildrenSelected then setSelection False False parentNode
         else if someChildrenSelected then setSelection False True parentNode
         else setSelection False False parentNode)"



definition checkNode :: "bool \<Rightarrow> node \<Rightarrow> node" where
  \<comment> \<open>the writes of \<^verbatim>\<open>handleTreeNodeChange\<close> to the node it found and to its descendants\<close>
  "checkNode isChecked node =
     (let node' = setSelection isChecked False node
      in if ntype node' = Directory then updateChildSelection node' isChecked else node')"





text \<open>
  Vocabulary for stating whose flag \<^verbatim>\<open>updateNodeChildren\<close> copies to the children it was
  given: the nodes of a tree in the order of the walk (a node before its children, the
  children before the next sibling), and those of them that carry a \<^verbatim>\<open>children\<close> array and
  come before the first node with a given path.
\<close>

fun preorder :: "node list \<Rightarrow> node list" where
  "preorder [] = []"
| "preorder (Node p ty ch s i e # nodes) =
     Node p ty ch s i e # (case ch of None \<Rightarrow> [] | Some cs \<Rightarrow> preorder cs) @ preorder nodes"

definition passedBefore :: "node list \<Rightarrow> string \<Rightarrow> node list" where
  "passedBefore nodes targetPath =
     filter (\<lambda>node. children node \<noteq> None)
       (takeWhile (\<lambda>node. path node \<noteq> targetPath) (preorder nodes))"

subsection \<open>The aggregate rule\<close>

fun allPaths :: "node list \<Rightarrow> string list" where
  \<comment> \<open>the paths of all nodes, parents before children\<close>
  "allPaths [] = []"
| "allPaths (Node p ty ch s i e # nodes) =
     p # (case ch of None \<Rightarrow> [] | Some cs \<Rightarrow> allPaths cs) @ allPaths nodes"

definition aggregateRule :: "node \<Rightarrow> bool" where
  \<comment> \<open>a directory with at least one loaded child carries the aggregate of its children\<close>
  "aggregateRule n =
     (case children n of
        None \<Rightarrow> True
      | Some cs \<Rightarrow>
          ntype n = Directory \<and> cs \<noteq> [] \<longrightarrow>
            (selected n = list_all selected cs)
            \<and> (indeterminate n =
                 (list_ex (\<lambda>child. selected child \<or> indeterminate child) cs
                  \<and> \<not> list_all selected cs)))"

fun treeInvariant :: "node list \<Rightarrow> bool" where
  \<comment> \<open>the aggregate rule at every node of the tree\<close>
  "treeInvariant [] = True"
| "treeInvariant (Node p ty ch s i e # nodes) =
     (aggregateRule (Node p ty ch s i e)
      \<and> (case ch of None \<Rightarrow> True | Some cs \<Rightarrow> treeInvariant cs)
      \<and> treeInvariant nodes)"

text \<open>
  A tree as the extension builds it: no node is selected or indeterminate.
\<close>

fun unselected :: "node list \<Rightarrow> bool" where
  "unselected [] = True"
| "unselected (Node p ty ch s i e # nodes) =
     (\<not> s \<and> \<not> i \<and> (case ch of None \<Rightarrow> True | Some cs \<Rightarrow> unselected cs) \<and> unselected nodes)"




section \<open>Concrete inputs\<close>

text \<open>
  A small workspace (every file is ten bytes long, \<^verbatim>\<open>src\<close> is a directory and the size of
  \<^verbatim>\<open>bad.ts\<close> cannot be determined), a workspace in which the size of \<^verbatim>\<open>bad.ts\<close> is known
  and reading it fails, a workspace whose files are two million bytes long, a configuration
  with a five-byte limit, a configuration object as the validator may receive it, and two
  users of the clipboard sink.
\<close>

definition exampleHost :: host where
  "exampleHost =
     \<lparr> isDirectory = (\<lambda>p. p = ''src''),
       getFileStats = (\<lambda>p. if p = ''bad.ts'' then Inl ''EACCES'' else Inr 10),
       getFileContent = (\<lambda>p. Inr ''0123456789''),
       renderPathTree = (\<lambda>ps. []),
       now = ''2024-01-01T00:00:00.000Z'' \<rparr>"

definition unreadableHost :: host where
  "unreadableHost =
     \<lparr> isDirectory = (\<lambda>p. False),
       getFileStats = (\<lambda>p. Inr 10),
       getFileContent = (\<lambda>p. if p = ''bad.ts'' then Inl ''EACCES: permission denied''
                             else Inr ''0123456789''),
       renderPathTree = (\<lambda>ps. []),
       now = ''2024-01-01T00:00:00.000Z'' \<rparr>"

definition largeFileHost :: host where
  "largeFileHost =
     \<lparr> isDirectory = (\<lambda>p. False),
       getFileStats = (\<lambda>p. Inr 2000000),
       getFileContent = (\<lambda>p. Inr (replicate 2000000 CHR ''x'')),
       renderPathTree = (\<lambda>ps. []),
       now = ''2024-01-01T00:00:00.000Z'' \<rparr>"

definition exampleConfiguration :: ExportConfiguration where
  "exampleConfiguration =
     \<lparr> format = Md, outputMethod = Clipboard, includeDirectoryStructure = False,
       maxFileSize = 5, excludePatterns = [''*.log''], includePatterns = [],
       truncateThreshold = 10485760 \<rparr>"

definition nanConfiguration :: raw_configuration where
  "nanConfiguration =
     \<lparr> raw_format = JStr ''md'', raw_outputMethod = JStr ''file'',
       raw_includeDirectoryStructure = JBool True, raw_maxFileSize = JNaN,
       raw_excludePatterns = JStr [], raw_includePatterns = JArray [],
       raw_truncateThreshold = JNum 10485760 \<rparr>"

definition decliningSink :: sink where
  "decliningSink =
     \<lparr> continueLarge = False, writeText = (\<lambda>text. None), saveAsFile = False,
       showSaveDialog = Inr None, writeFile = (\<lambda>uri text. None) \<rparr>"

definition acceptingSink :: sink where
  "acceptingSink =
     \<lparr> continueLarge = True, writeText = (\<lambda>text. None), saveAsFile = False,
       showSaveDialog = Inr None, writeFile = (\<lambda>uri text. None) \<rparr>"






section \<open>Properties of the export pipeline\<close>

lemma filterValidFilesLoop_eq:
  "filterValidFilesLoop h ps acc = acc @ filter (\<lambda>p. \<not> isDirectory h p \<and> \<not> isBinaryFile p) ps"
  by (induction ps arbitrary: acc) auto

lemma filterValidFiles_eq:
  "filterValidFiles h ps = filter (\<lambda>p. \<not> isDirectory h p \<and> \<not> isBinaryFile p) ps"
  by (simp add: filterValidFiles_def filterValidFilesLoop_eq)

lemma concat_appendToLastChunk:
  "chunks \<noteq> [] \<Longrightarrow> concat (appendToLastChunk chunks s) = concat chunks @ s"
proof -
  assume ne: "chunks \<noteq> []"
  then have "chunks = butlast chunks @ [last chunks]" by simp
  then have "concat chunks = concat (butlast chunks) @ last chunks"
    by (metis concat.simps(2) concat_append append_Nil2 concat.simps(1))
  with ne show ?thesis by (simp add: appendToLastChunk_def)
qed

lemma appendToLastChunk_nonempty: "chunks \<noteq> [] \<Longrightarrow> appendToLastChunk chunks s \<noteq> []"
  by (simp add: appendToLastChunk_def)

lemma addStructure_chunks:
  assumes "contentChunks v \<noteq> []"
  shows "concat (contentChunks (addStructure s v)) = concat (contentChunks v) @ s"
    and "contentChunks (addStructure s v) \<noteq> []"
  using assms by (simp_all add: addStructure_def concat_appendToLastChunk appendToLastChunk_nonempty)

lemma addStructure_other:
  "truncatedFiles' (addStructure s v) = truncatedFiles' v"
  "totalFiles' (addStructure s v) = totalFiles' v"
  "totalSize' (addStructure s v) = totalSize' v"
  "reported (addStructure s v) = reported v"
  by (simp_all add: addStructure_def)

lemma addFileContent_chunks:
  assumes "contentChunks v \<noteq> []"
  shows "concat (contentChunks (addFileContent s v)) = concat (contentChunks v) @ s"
    and "contentChunks (addFileContent s v) \<noteq> []"
  using assms by (simp_all add: addFileContent_def concat_appendToLastChunk appendToLastChunk_nonempty)

lemma addFileContent_other:
  "truncatedFiles' (addFileContent s v) = truncatedFiles' v"
  "totalFiles' (addFileContent s v) = totalFiles' v"
  "totalSize' (addFileContent s v) = totalSize' v"
  "reported (addFileContent s v) = reported v"
  by (simp_all add: addFileContent_def)

lemma addFooter_chunks:
  assumes "contentChunks v \<noteq> []"
  shows "concat (contentChunks (addFooter s v)) = concat (contentChunks v) @ s"
  using assms by (simp add: addFooter_def concat_appendToLastChunk)

lemma addFooter_other:
  "truncatedFiles' (addFooter s v) = truncatedFiles' v"
  "totalFiles' (addFooter s v) = totalFiles' v"
  "totalSize' (addFooter s v) = totalSize' v"
  "reported (addFooter s v) = reported v"
  by (simp_all add: addFooter_def)

lemma processOne_effect:
  assumes "contentChunks v \<noteq> []"
  shows "contentChunks (processOne h c n k f v) \<noteq> []"
    and "concat (contentChunks (processOne h c n k f v)) = concat (contentChunks v) @ fileBlock h c f"
    and "truncatedFiles' (processOne h c n k f v) = truncatedFiles' v @ (if wasTruncated h c f then [f] else [])"
    and "totalFiles' (processOne h c n k f v) = totalFiles' v + (if processed h c f then 1 else 0)"
    and "totalSize' (processOne h c n k f v) = totalSize' v + (if processed h c f then statSize h f else 0)"
    and "reported (processOne h c n k f v) = reported v @ [fileProgress n k]"
  using assms
  by (auto simp: processOne_def progressCallback_def fileBlock_def wasTruncated_def processed_def
      statSize_def fileProgress_def Let_def addFileContent_chunks addFileContent_other
      addStructure_chunks addStructure_other processFile_def
      split: sum.splits if_splits)


lemma ranOver_Nil: "contentChunks v \<noteq> [] \<Longrightarrow> ranOver h c n k [] v v"
  by (simp add: ranOver_def)

lemma ranOver_one:
  "contentChunks v \<noteq> [] \<Longrightarrow> ranOver h c n k [f] v (processOne h c n k f v)"
  by (simp add: ranOver_def processOne_effect)

lemma ranOver_append:
  assumes "ranOver h c n k fs v v1" and "ranOver h c n (k + length fs) gs v1 v2"
  shows "ranOver h c n k (fs @ gs) v v2"
proof -
  have "[k..<k + length fs + length gs] = [k..<k + length fs] @ [k + length fs..<k + length fs + length gs]"
    by (rule upt_add_eq_append) simp
  then have "[k..<k + length (fs @ gs)]
               = [k..<k + length fs] @ [k + length fs..<k + length fs + length gs]"
    by (simp only: length_append add.assoc)
  with assms show ?thesis
    by (simp add: ranOver_def)
qed

lemma processBatch_ranOver:
  "contentChunks v \<noteq> [] \<Longrightarrow>
   ranOver h c n (batchStart + i) batch v (processBatch h c n batchStart batch i v)"
proof (induction batch arbitrary: i v)
  case Nil
  then show ?case by (simp add: ranOver_Nil)
next
  case (Cons f rest)
  let ?v1 = "processOne h c n (batchStart + i) f v"
  have one: "ranOver h c n (batchStart + i) [f] v ?v1"
    using Cons.prems by (rule ranOver_one)
  then have ne: "contentChunks ?v1 \<noteq> []" by (simp add: ranOver_def)
  have "ranOver h c n (batchStart + Suc i) rest ?v1 (processBatch h c n batchStart rest (Suc i) ?v1)"
    using ne by (rule Cons.IH)
  then have "ranOver h c n (batchStart + i + length [f]) rest ?v1
               (processBatch h c n batchStart rest (Suc i) ?v1)" by simp
  from ranOver_append [OF one this] show ?case by simp
qed

lemma processBatches_ranOver:
  "contentChunks v \<noteq> [] \<Longrightarrow>
   ranOver h c (length validFiles) batchStart (drop batchStart validFiles) v
     (processBatches h c validFiles batchStart v)"
proof (induction h c validFiles batchStart v rule: processBatches.induct)
  case (1 h c validFiles batchStart v)
  show ?case
  proof (cases "batchStart < length validFiles")
    case False
    with "1.prems" show ?thesis
      by (simp add: processBatches.simps ranOver_Nil)
  next
    case True
    define batchEnd where "batchEnd = min (batchStart + BATCH_SIZE) (length validFiles)"
    define batch where "batch = take (batchEnd - batchStart) (drop batchStart validFiles)"
    define v1 where "v1 = processBatch h c (length validFiles) batchStart batch 0 v"
    have len: "length batch = batchEnd - batchStart"
      using True by (auto simp: batch_def batchEnd_def)
    have split: "drop batchStart validFiles = batch @ drop (batchStart + BATCH_SIZE) validFiles"
    proof (cases "batchStart + BATCH_SIZE \<le> length validFiles")
      case True
      then have "batchEnd - batchStart = BATCH_SIZE" by (simp add: batchEnd_def)
      then show ?thesis
        by (simp add: batch_def add.commute flip: drop_drop)
    next
      case False
      then have "batchEnd = length validFiles" by (simp add: batchEnd_def)
      with False show ?thesis by (simp add: batch_def)
    qed
    have first: "ranOver h c (length validFiles) batchStart batch v v1"
      using processBatch_ranOver [OF "1.prems", of h c "length validFiles" batchStart 0 batch]
      by (simp add: v1_def)
    then have ne: "contentChunks v1 \<noteq> []" by (simp add: ranOver_def)
    have rest: "ranOver h c (length validFiles) (batchStart + BATCH_SIZE)
                  (drop (batchStart + BATCH_SIZE) validFiles) v1
                  (processBatches h c validFiles (batchStart + BATCH_SIZE) v1)"
      using "1.IH" [OF True batchEnd_def batch_def ne [unfolded v1_def]] by (simp add: v1_def)
    have result: "processBatches h c validFiles batchStart v
                  = processBatches h c validFiles (batchStart + BATCH_SIZE) v1"
      using True by (subst processBatches.simps) (simp add: Let_def v1_def batch_def batchEnd_def)
    show ?thesis
    proof (cases "batchStart + BATCH_SIZE \<le> length validFiles")
      case True
      then have "batchStart + length batch = batchStart + BATCH_SIZE"
        by (simp add: len batchEnd_def)
      with rest have "ranOver h c (length validFiles) (batchStart + length batch)
                  (drop (batchStart + BATCH_SIZE) validFiles) v1
                  (processBatches h c validFiles (batchStart + BATCH_SIZE) v1)" by simp
      from ranOver_append [OF first this] show ?thesis
        by (simp add: result split [symmetric])
    next
      case False
      then have "drop (batchStart + BATCH_SIZE) validFiles = []" by simp
      moreover have "contentChunks v1 \<noteq> []" by (rule ne)
      ultimately have "processBatches h c validFiles (batchStart + BATCH_SIZE) v1 = v1"
        using False by (subst processBatches.simps) simp
      with first split False show ?thesis by (simp add: result)
    qed
  qed
qed


lemma exportVars_summary:
  fixes h sel c
  defines "v \<equiv> exportVars h sel c" and "validFiles \<equiv> filterValidFiles h sel"
  shows "concat (contentChunks v)
           = generateHeader h c
             @ (if includeDirectoryStructure c then generateDirectoryStructure h sel else [])
             @ concat (map (fileBlock h c) validFiles)
             @ generateFooter c (totalFiles' v) (totalSize' v) (truncatedFiles' v)"
    and "truncatedFiles' v = filter (wasTruncated h c) validFiles"
    and "totalFiles' v = length (filter (processed h c) validFiles)"
    and "totalSize' v = sum_list (map (statSize h) (filter (processed h c) validFiles))"
    and "reported v = (if includeDirectoryStructure c then [10] else [])
                      @ map (fileProgress (length validFiles)) [0..<length validFiles] @ [95, 100]"
proof -
  define v0 where "v0 = \<lparr> contentChunks = [generateHeader h c],
                          currentChunkSize = length (generateHeader h c),
                          truncatedFiles' = [], totalFiles' = 0, totalSize' = 0, reported = [] \<rparr>"
  define v1 where "v1 = (if includeDirectoryStructure c
                         then addStructure (generateDirectoryStructure h sel) (progressCallback 10 v0)
                         else v0)"
  have ne: "contentChunks v1 \<noteq> []"
    by (simp add: v1_def v0_def addStructure_chunks progressCallback_def)
  have c1: "concat (contentChunks v1)
               = generateHeader h c
                 @ (if includeDirectoryStructure c then generateDirectoryStructure h sel else [])"
    by (simp add: v1_def v0_def addStructure_chunks progressCallback_def)
  have z: "truncatedFiles' v1 = []" "totalFiles' v1 = 0" "totalSize' v1 = 0"
    by (simp_all add: v1_def v0_def addStructure_other progressCallback_def)
  have r1: "reported v1 = (if includeDirectoryStructure c then [10] else [])"
    by (simp add: v1_def v0_def addStructure_other progressCallback_def)
  have v: "v = (let v2 = processBatches h c validFiles 0 v1
                 in progressCallback 100 (progressCallback 95
                      (addFooter (generateFooter c (totalFiles' v2) (totalSize' v2)
                         (truncatedFiles' v2)) v2)))"
    unfolding v_def validFiles_def exportVars_def v1_def v0_def Let_def by (rule refl)
  define v2 where "v2 = processBatches h c validFiles 0 v1"
  have ran: "ranOver h c (length validFiles) 0 validFiles v1 v2"
    using processBatches_ranOver [OF ne, of h c validFiles 0] by (simp add: v2_def)
  have v': "v = progressCallback 100 (progressCallback 95
                  (addFooter (generateFooter c (totalFiles' v2) (totalSize' v2)
                     (truncatedFiles' v2)) v2))"
    using v by (simp add: Let_def v2_def)
  have ne2: "contentChunks v2 \<noteq> []" using ran by (simp add: ranOver_def)
  show "truncatedFiles' v = filter (wasTruncated h c) validFiles"
    using ran z by (simp add: v' progressCallback_def addFooter_other ranOver_def)
  show "totalFiles' v = length (filter (processed h c) validFiles)"
    using ran z by (simp add: v' progressCallback_def addFooter_other ranOver_def)
  show "totalSize' v = sum_list (map (statSize h) (filter (processed h c) validFiles))"
    using ran z by (simp add: v' progressCallback_def addFooter_other ranOver_def)
  show "reported v = (if includeDirectoryStructure c then [10] else [])
                      @ map (fileProgress (length validFiles)) [0..<length validFiles] @ [95, 100]"
    using ran r1 by (simp add: v' progressCallback_def addFooter_other ranOver_def)
  have "concat (contentChunks v)
          = concat (contentChunks v2)
            @ generateFooter c (totalFiles' v2) (totalSize' v2) (truncatedFiles' v2)"
    by (simp add: v' progressCallback_def addFooter_chunks [OF ne2])
  moreover have "totalFiles' v = totalFiles' v2" "totalSize' v = totalSize' v2"
    "truncatedFiles' v = truncatedFiles' v2"
    by (simp_all add: v' progressCallback_def addFooter_other)
  ultimately show "concat (contentChunks v)
           = generateHeader h c
             @ (if includeDirectoryStructure c then generateDirectoryStructure h sel else [])
             @ concat (map (fileBlock h c) validFiles)
             @ generateFooter c (totalFiles' v) (totalSize' v) (truncatedFiles' v)"
    using ran c1 by (simp add: ranOver_def)
qed

lemma generateExport_content:
  "content (fst (generateExport h sel c))
     = generateHeader h c
       @ (if includeDirectoryStructure c then generateDirectoryStructure h sel else [])
       @ concat (map (fileBlock h c) (filterValidFiles h sel))
       @ generateFooter c (totalFiles (metadata (fst (generateExport h sel c))))
           (totalSize (metadata (fst (generateExport h sel c))))
           (truncatedFiles (metadata (fst (generateExport h sel c))))"
  using exportVars_summary(1) [of h sel c] by (simp add: generateExport_def Let_def)

lemma generateExport_metadata:
  "totalFiles (metadata (fst (generateExport h sel c)))
     = length (filter (processed h c) (filterValidFiles h sel))"
  "totalSize (metadata (fst (generateExport h sel c)))
     = sum_list (map (statSize h) (filter (processed h c) (filterValidFiles h sel)))"
  "truncatedFiles (metadata (fst (generateExport h sel c)))
     = filter (wasTruncated h c) (filterValidFiles h sel)"
  using exportVars_summary(2,3,4) [of h sel c] by (simp_all add: generateExport_def Let_def)

lemma generateExport_reported:
  "snd (generateExport h sel c)
     = (if includeDirectoryStructure c then [10] else [])
       @ map (fileProgress (length (filterValidFiles h sel))) [0..<length (filterValidFiles h sel)]
       @ [95, 100]"
  using exportVars_summary(5) [of h sel c] by (simp add: generateExport_def Let_def)

lemma distinct_filterValidFiles:
  "distinct selectedPaths \<Longrightarrow> distinct (filterValidFiles h selectedPaths)"
  by (simp add: filterValidFiles_eq)

lemma count_list_filter_distinct:
  "distinct xs \<Longrightarrow> x \<in> set xs \<Longrightarrow> count_list (filter P xs) x = (if P x then 1 else 0)"
  by (induction xs) auto

lemma processed_readable: "processed h c filePath = readable h filePath"
  by (simp add: processed_def readable_def processFile_def Let_def split: sum.splits)

lemma fileBlock_read:
  assumes "getFileStats h filePath = Inr byteLength" and "getFileContent h filePath = Inr text"
  shows "fileBlock h configuration filePath
     = (case format configuration of
          Md \<Rightarrow> ''## File: '' @ filePath @ ''\<newline>\<newline>```''
                 @ getLanguageFromExtension (extname filePath) @ ''\<newline>''
        | Txt \<Rightarrow> separator filePath @ ''\<newline>File: '' @ filePath @ ''\<newline>''
                 @ separator filePath @ ''\<newline>\<newline>'')
       @ (if byteLength > maxFileSize configuration
          then take (maxFileSize configuration * 4 div 5) text
               @ ''\<newline>\<newline>[... Content truncated due to size limit ...]''
          else text)
       @ (case format configuration of
            Md \<Rightarrow> ''\<newline>```\<newline>\<newline>'' | Txt \<Rightarrow> ''\<newline>\<newline>'')"
  using assms
  by (simp add: fileBlock_def processFile_def formatFileContent_def truncationMarker_def Let_def
      split: export_format.splits)

lemma fileBlock_failed:
  assumes "getFileStats h filePath = Inl message
           \<or> (\<exists>byteLength. getFileStats h filePath = Inr byteLength)
              \<and> getFileContent h filePath = Inl message"
  shows "fileBlock h configuration filePath
     = (case format configuration of
          Md \<Rightarrow> ''## File: '' @ filePath @ ''\<newline>\<newline>**Error**: '' @ message
                 @ ''\<newline>\<newline>''
        | Txt \<Rightarrow> separator filePath @ ''\<newline>File: '' @ filePath @ ''\<newline>''
                 @ separator filePath @ ''\<newline>\<newline>Error: '' @ message
                 @ ''\<newline>\<newline>'')"
  using assms
  by (auto simp add: fileBlock_def processFile_def formatError_def split: export_format.splits)

lemma blocks_at:
  assumes "i < length vf"
  shows "concat (map f vf) = concat (map f (take i vf)) @ f (vf ! i) @ concat (map f (drop (Suc i) vf))"
proof -
  have "vf = take i vf @ vf ! i # drop (Suc i) vf"
    using assms by (simp add: id_take_nth_drop)
  then have "concat (map f vf) = concat (map f (take i vf @ vf ! i # drop (Suc i) vf))"
    by simp
  then show ?thesis by simp
qed

lemma filter_at:
  assumes "i < length vf" and "\<not> P (vf ! i)"
  shows "filter P vf = filter P (take i vf) @ filter P (drop (Suc i) vf)"
proof -
  have "vf = take i vf @ vf ! i # drop (Suc i) vf"
    using assms by (simp add: id_take_nth_drop)
  then have "filter P vf = filter P (take i vf @ vf ! i # drop (Suc i) vf)"
    by simp
  then show ?thesis using assms(2) by simp
qed

lemma footer_size_line:
  "suffix
     (case format configuration of
        Md \<Rightarrow> ''- **Total Size**: '' @ string_of_nat ((bytes + 512) div 1024) @ '' KB\<newline>''
               @ (if listed = [] then []
                  else ''- **Truncated Files**: '' @ string_of_nat (length listed)
                       @ ''\<newline>\<newline>### Truncated Files:\<newline>''
                       @ concat (map (\<lambda>file. ''- '' @ file @ ''\<newline>'') listed))
      | Txt \<Rightarrow> ''- Total Size: '' @ string_of_nat ((bytes + 512) div 1024) @ '' KB\<newline>''
               @ (if listed = [] then []
                  else ''- Truncated Files: '' @ string_of_nat (length listed)
                       @ ''\<newline>\<newline>Truncated Files:\<newline>''
                       @ concat (map (\<lambda>file. ''  - '' @ file @ ''\<newline>'') listed)))
     (generateFooter configuration files bytes listed)"
proof (cases "format configuration")
  case Md
  show ?thesis
    by (rule suffixI [where zs = "''\<newline>---\<newline>\<newline>## Export Summary\<newline>\<newline>''
               @ ''- **Total Files**: '' @ string_of_nat files @ ''\<newline>''"])
       (simp add: generateFooter_def Md)
next
  case Txt
  show ?thesis
    by (rule suffixI [where zs = "''\<newline>'' @ replicate 50 CHR ''='' @ ''\<newline>\<newline>''
               @ ''Export Summary:\<newline>''
               @ ''- Total Files: '' @ string_of_nat files @ ''\<newline>''"])
       (simp add: generateFooter_def Txt)
qed

lemma fileProgress_bounds: "k < n \<Longrightarrow> 20 \<le> fileProgress n k \<and> fileProgress n k \<le> 90"
proof -
  assume kn: "k < n"
  then have "0 \<le> real k / real n" "real k / real n \<le> 1" by (simp_all add: divide_le_eq)
  then have "0 \<le> (real k / real n) * 70" "(real k / real n) * 70 \<le> 1 * 70"
    by (simp, intro mult_right_mono) simp_all
  then show ?thesis unfolding fileProgress_def by linarith
qed

lemma fileProgress_mono: "j \<le> k \<Longrightarrow> fileProgress n j \<le> fileProgress n k"
  by (simp add: fileProgress_def divide_right_mono)

lemma sorted_fileProgress: "sorted (map (fileProgress n) [0..<n])"
  by (simp add: sorted_map sorted_wrt_iff_nth_less fileProgress_mono)

section \<open>Properties of the selection engine\<close>



lemma findParentNode_Cons_sel:
  "findParentNode (n # ns) q =
     (case children n of
        None \<Rightarrow> findParentNode ns q
      | Some cs \<Rightarrow>
          if list_ex (\<lambda>child. path child = q) cs then Some n
          else (case findParentNode cs q of
                  Some found \<Rightarrow> Some found
                | None \<Rightarrow> findParentNode ns q))"
  by (cases n) (auto split: option.splits)

lemma map_path_modifyParentNode:
  "(\<And>n. path (f n) = path n) \<Longrightarrow> map path (modifyParentNode f t q) = map path t"
  by (induction f t q rule: modifyParentNode.induct) (auto split: option.splits)

lemma list_ex_path_modifyParentNode:
  "(\<And>n. path (f n) = path n) \<Longrightarrow>
   list_ex (\<lambda>child. path child = q') (modifyParentNode f t q)
     = list_ex (\<lambda>child. path child = q') t"
proof -
  assume "\<And>n. path (f n) = path n"
  then have "map path (modifyParentNode f t q) = map path t" by (rule map_path_modifyParentNode)
  then have "path ` set (modifyParentNode f t q) = path ` set t" by (metis list.set_map)
  then show ?thesis by (auto simp: list_ex_iff image_iff) (metis image_iff)+
qed

lemma findParentNode_modifyParentNode:
  "(\<And>n. path (f n) = path n \<and> children (f n) = children n) \<Longrightarrow>
   findParentNode (modifyParentNode f t q) q = map_option f (findParentNode t q)"
proof (induction f t q rule: modifyParentNode.induct)
  case (1 f childPath)
  then show ?case by simp
next
  case (2 f p ty ch s i e nodes q)
  show ?case
  proof (cases ch)
    case None
    then show ?thesis using 2 by simp
  next
    case (Some cs)
    show ?thesis
    proof (cases "list_ex (\<lambda>child. path child = q) cs")
      case True
      then show ?thesis
        using Some "2.prems" [of "Node p ty ch s i e"] by (simp add: findParentNode_Cons_sel)
    next
      case False
      then show ?thesis
        using Some 2 by (auto simp: list_ex_path_modifyParentNode split: option.splits)
    qed
  qed
qed




lemma allPaths_append [simp]: "allPaths (xs @ ys) = allPaths xs @ allPaths ys"
  by (induction xs rule: allPaths.induct) auto








lemma setSelection_fields [simp]:
  "path (setSelection a b n) = path n"
  "ntype (setSelection a b n) = ntype n"
  "children (setSelection a b n) = children n"
  "selected (setSelection a b n) = a"
  "indeterminate (setSelection a b n) = b"
  by (cases n; simp)+

lemma setFromChildren_fields [simp]:
  "path (setFromChildren n) = path n"
  "ntype (setFromChildren n) = ntype n"
  "children (setFromChildren n) = children n"
  by (simp_all add: setFromChildren_def Let_def)













lemma allPaths_setSelection [simp]: "allPaths [setSelection a b n] = allPaths [n]"
  by (cases n) simp

lemma updateChildSelection_fields [simp]:
  "path (updateChildSelection n v) = path n"
  "ntype (updateChildSelection n v) = ntype n"
  "selected (updateChildSelection n v) = selected n"
  "indeterminate (updateChildSelection n v) = indeterminate n"
  by (cases n; simp)+


lemma checkNode_fields [simp]:
  "path (checkNode v n) = path n"
  "ntype (checkNode v n) = ntype n"
  "selected (checkNode v n) = v"
  "indeterminate (checkNode v n) = False"
  by (simp_all add: checkNode_def Let_def)






lemma children_updateChildSelection:
  "children (updateChildSelection n v) =
     map_option (map (\<lambda>child. let child' = setSelection v False child
                       in if ntype child' = Directory then updateChildSelection child' v else child'))
       (children n)"
  by (cases n) simp









lemma unselected_roots:
  "unselected t \<Longrightarrow> n \<in> set t \<Longrightarrow> \<not> selected n \<and> \<not> indeterminate n"
  by (induction t rule: unselected.induct) auto

lemma unselected_invariant: "unselected t \<Longrightarrow> treeInvariant t"
proof (induction t rule: unselected.induct)
  case 1
  then show ?case by simp
next
  case (2 p ty ch s i e nodes)
  have "aggregateRule (Node p ty ch s i e)"
  proof (cases ch)
    case None
    then show ?thesis by (simp add: aggregateRule_def)
  next
    case (Some cs)
    then have "unselected cs" using "2.prems" by simp
    then have "\<And>c. c \<in> set cs \<Longrightarrow> \<not> selected c \<and> \<not> indeterminate c"
      by (rule unselected_roots)
    moreover have "\<not> s" "\<not> i" using "2.prems" by simp_all
    ultimately show ?thesis
      using Some by (cases cs) (auto simp: aggregateRule_def list_all_iff list_ex_iff)
  qed
  then show ?case using 2 by (auto split: option.splits)
qed



lemma setSelected_twice [simp]: "setSelected b (setSelected a n) = setSelected b n"
  by (cases n) simp

lemma setSelected_fields [simp]:
  "path (setSelected b n) = path n" "selected (setSelected b n) = b"
  "children (setSelected b n) = children n"
  by (cases n; simp)+

lemma attachChildren_fields [simp]:
  "path (attachChildren cs n) = path n" "children (attachChildren cs n) = Some cs"
  "expanded (attachChildren cs n)" "selected (attachChildren cs n) = selected n"
  "indeterminate (attachChildren cs n) = indeterminate n"
  by (cases n; simp)+



lemma passedBefore_Nil [simp]: "passedBefore [] p = []"
  by (simp add: passedBefore_def)





section \<open>Evaluation of the concrete inputs\<close>

lemmas eval_classifier = isBinaryFile_def extname_def basename_def stripTrailingSlashes_def
  toLowerCase_def BINARY_EXTENSIONS_def
lemmas eval_matcher = matchesPattern_def regexPattern_def regexSyntaxChar_def lineTerminator_def

lemmas eval_export = generateAndExport_def generateExport_def exportVars_def
  processBatches.simps processOne_def processFile_def progressCallback_def
  addFileContent_def addStructure_def addFooter_def appendToLastChunk_def
  filterValidFiles_def BATCH_SIZE_def CHUNK_SIZE_LIMIT_def
  copyToClipboardWithProgress_def copyToClipboard_def


lemma example_valid:
  "filterValidFiles exampleHost [''a.ts'', ''bad.ts'', ''b.ts''] = [''a.ts'', ''bad.ts'', ''b.ts'']"
  by (simp add: filterValidFiles_def exampleHost_def eval_classifier)

lemma language_ts: "getLanguageFromExtension (extname ''a.ts'') = ''typescript''"
  "getLanguageFromExtension (extname ''b.ts'') = ''typescript''"
  "getLanguageFromExtension (extname ''big.ts'') = ''typescript''"
  by (simp_all add: getLanguageFromExtension_def languageMap_def eval_classifier)

lemma digits: "string_of_nat 0 = ''0''" "string_of_nat (Suc 0) = ''1''" "string_of_nat 2 = ''2''"
  "string_of_nat (Suc (Suc 0)) = ''2''" "string_of_nat 1953 = ''1953''"
  by (simp_all add: string_of_nat.simps)

lemma unreadable_valid:
  "filterValidFiles unreadableHost [''a.ts'', ''bad.ts'', ''b.ts''] = [''a.ts'', ''bad.ts'', ''b.ts'']"
  by (simp add: filterValidFiles_def unreadableHost_def eval_classifier)

lemma large_file_document:
  "content (fst (generateExport largeFileHost [''big.ts''] exampleConfiguration))
     = ''# LLM Context Export\<newline>\<newline>Generated on: 2024-01-01T00:00:00.000Z\<newline>\<newline>---\<newline>\<newline>''
       @ ''## File: big.ts\<newline>\<newline>```typescript\<newline>xxxx\<newline>\<newline>[... Content truncated due to size limit ...]\<newline>```\<newline>\<newline>''
       @ ''\<newline>---\<newline>\<newline>## Export Summary\<newline>\<newline>- **Total Files**: 1\<newline>- **Total Size**: 1953 KB\<newline>''
       @ ''- **Truncated Files**: 1\<newline>\<newline>### Truncated Files:\<newline>- big.ts\<newline>''"
proof -
  have vf: "filterValidFiles largeFileHost [''big.ts''] = [''big.ts'']"
    by (simp add: filterValidFiles_def largeFileHost_def eval_classifier)
  have p: "processed largeFileHost exampleConfiguration ''big.ts''"
    "wasTruncated largeFileHost exampleConfiguration ''big.ts''"
    "statSize largeFileHost ''big.ts'' = 2000000"
    by (simp_all add: processed_def wasTruncated_def statSize_def processFile_def largeFileHost_def
        exampleConfiguration_def)
  have "replicate 4 CHR ''x'' = ''xxxx''"
    by (simp add: numeral_eq_Suc)
  then have x: "take 4 (replicate 2000000 CHR ''x'') = ''xxxx''"
    by simp
  have b: "fileBlock largeFileHost exampleConfiguration ''big.ts''
     = ''## File: big.ts\<newline>\<newline>```typescript\<newline>xxxx\<newline>\<newline>[... Content truncated due to size limit ...]\<newline>```\<newline>\<newline>''"
    by (simp add: fileBlock_def processFile_def largeFileHost_def exampleConfiguration_def
        formatFileContent_def truncationMarker_def language_ts x del: take_replicate)
  have m: "totalSize (metadata (fst (generateExport largeFileHost [''big.ts''] exampleConfiguration)))
             = 2000000"
    "totalFiles (metadata (fst (generateExport largeFileHost [''big.ts''] exampleConfiguration))) = 1"
    "truncatedFiles (metadata (fst (generateExport largeFileHost [''big.ts''] exampleConfiguration)))
       = [''big.ts'']"
    by (simp_all add: generateExport_metadata vf p)
  have h: "generateHeader largeFileHost exampleConfiguration
     = ''# LLM Context Export\<newline>\<newline>Generated on: 2024-01-01T00:00:00.000Z\<newline>\<newline>---\<newline>\<newline>''"
    by (simp add: generateHeader_def largeFileHost_def exampleConfiguration_def)
  have f: "generateFooter exampleConfiguration (Suc 0) 2000000 [''big.ts'']
     = ''\<newline>---\<newline>\<newline>## Export Summary\<newline>\<newline>- **Total Files**: 1\<newline>- **Total Size**: 1953 KB\<newline>''
       @ ''- **Truncated Files**: 1\<newline>\<newline>### Truncated Files:\<newline>- big.ts\<newline>''"
    by (simp add: generateFooter_def exampleConfiguration_def digits)
  have i: "\<not> includeDirectoryStructure exampleConfiguration"
    by (simp add: exampleConfiguration_def)
  show ?thesis
    by (simp add: generateExport_content m vf i b h f)
qed

section \<open>The claims\<close>

subsection \<open>Eligible files\<close>

text \<open>
  C1 (as stated, refuted). The claim says that the files a run processes are the selected
  paths that are no directories, not binary by extension, match no exclude pattern and match
  an include pattern when there is one. With the exclude pattern \<^verbatim>\<open>*.log\<close> the selected
  path \<^verbatim>\<open>app.log\<close> is still an eligible file of the run, although the claim excludes it.
\<close>

theorem eligible_files_counterexample:
  "filterValidFiles exampleHost [''app.log''] = [''app.log'']
   \<and> eligible_spec exampleHost exampleConfiguration [''app.log''] = []"
  by (simp add: filterValidFiles_def eligible_spec_def exampleHost_def exampleConfiguration_def
      eval_classifier eval_matcher)

text \<open>
  C1 (amended). The eligible files of a run are exactly the selected paths that are not
  directories and not binary by extension, in the order of the selection; the configuration,
  and with it both pattern lists, plays no part.
\<close>

theorem eligible_files_ignore_patterns:
  "filterValidFiles h selectedPaths
     = filter (\<lambda>p. \<not> isDirectory h p \<and> \<not> isBinaryFile p) selectedPaths"
  by (rule filterValidFiles_eq)

subsection \<open>Pattern matcher\<close>

text \<open>
  C3. The claim reads \<^verbatim>\<open>**\<close> as any sequence of characters, the empty one and path
  separators included. In the source the replacement of \<^verbatim>\<open>*\<close> also rewrites the star of
  the \<^verbatim>\<open>.*\<close> that replaced \<^verbatim>\<open>**\<close>, so \<^verbatim>\<open>**\<close> ends up as \<^verbatim>\<open>.[^/]*\<close>: one character followed
  by characters other than separators. The pattern \<^verbatim>\<open>**/*.ts\<close> does not match
  \<^verbatim>\<open>a/b/c.ts\<close> and \<^verbatim>\<open>src/**\<close> does not match \<^verbatim>\<open>src/\<close>, while the glob language of the claim
  matches both.
\<close>

theorem double_star_divergence:
  "matchesPattern ''a/b/c.ts'' ''**/*.ts'' = Some False
   \<and> matches_spec ''a/b/c.ts'' ''**/*.ts''
   \<and> matchesPattern ''src/'' ''src/**'' = Some False
   \<and> matches_spec ''src/'' ''src/**''"
  by (simp add: eval_matcher matches_spec_def)

subsection \<open>Truncation\<close>

text \<open>
  C5. In a run whose eligible files are distinct, take the \<open>i\<close>-th eligible file, whose size
  and content the file system delivers. If its byte length exceeds \<^verbatim>\<open>maxFileSize\<close>, its path
  occurs exactly once in \<^verbatim>\<open>truncatedFiles\<close>; otherwise it does not occur there. The
  document is the header, the optional directory structure, the blocks of the files before
  it, the block of the file, the blocks of the files after it and the footer, and the block of
  the file is the line that names it (and, in Markdown, opens the code fence), then its body,
  then the closing line: the body is the first \<open>4 * maxFileSize div 5\<close> characters of the
  content followed by the truncation marker when the byte length exceeds \<^verbatim>\<open>maxFileSize\<close>,
  and the whole content otherwise.
\<close>

theorem truncation_recorded_once:
  assumes "distinct (filterValidFiles h selectedPaths)"
    and "i < length (filterValidFiles h selectedPaths)"
    and "filterValidFiles h selectedPaths ! i = filePath"
    and "getFileStats h filePath = Inr byteLength"
    and "getFileContent h filePath = Inr text"
  shows "(if byteLength > maxFileSize configuration
          then count_list (truncatedFiles (metadata (fst (generateExport h selectedPaths configuration))))
                 filePath = 1
          else filePath \<notin> set (truncatedFiles (metadata (fst (generateExport h selectedPaths configuration)))))
         \<and> content (fst (generateExport h selectedPaths configuration))
             = generateHeader h configuration
               @ (if includeDirectoryStructure configuration
                  then generateDirectoryStructure h selectedPaths else [])
               @ concat (map (fileBlock h configuration) (take i (filterValidFiles h selectedPaths)))
               @ (case format configuration of
                    Md \<Rightarrow> ''## File: '' @ filePath @ ''\<newline>\<newline>```''
                           @ getLanguageFromExtension (extname filePath) @ ''\<newline>''
                  | Txt \<Rightarrow> separator filePath @ ''\<newline>File: '' @ filePath @ ''\<newline>''
                           @ separator filePath @ ''\<newline>\<newline>'')
               @ (if byteLength > maxFileSize configuration
                  then take (maxFileSize configuration * 4 div 5) text
                       @ ''\<newline>\<newline>[... Content truncated due to size limit ...]''
                  else text)
               @ (case format configuration of
                    Md \<Rightarrow> ''\<newline>```\<newline>\<newline>'' | Txt \<Rightarrow> ''\<newline>\<newline>'')
               @ concat (map (fileBlock h configuration)
                           (drop (Suc i) (filterValidFiles h selectedPaths)))
               @ generateFooter configuration
                   (totalFiles (metadata (fst (generateExport h selectedPaths configuration))))
                   (totalSize (metadata (fst (generateExport h selectedPaths configuration))))
                   (truncatedFiles (metadata (fst (generateExport h selectedPaths configuration))))"
proof -
  define vf where "vf = filterValidFiles h selectedPaths"
  have d: "distinct vf"
    using assms(1) by (simp add: vf_def)
  have i: "i < length vf" and at: "vf ! i = filePath"
    using assms(2,3) by (simp_all add: vf_def)
  have m: "filePath \<in> set vf"
    using i at by (metis nth_mem)
  have tr: "wasTruncated h configuration filePath = (byteLength > maxFileSize configuration)"
    using assms(4,5) by (simp add: wasTruncated_def processFile_def Let_def)
  have cnt: "count_list (truncatedFiles (metadata (fst (generateExport h selectedPaths configuration))))
               filePath = (if byteLength > maxFileSize configuration then 1 else 0)"
    using count_list_filter_distinct [OF d m, of "wasTruncated h configuration"]
    by (simp add: generateExport_metadata(3) tr vf_def)
  have notin: "\<not> byteLength > maxFileSize configuration \<Longrightarrow>
     filePath \<notin> set (truncatedFiles (metadata (fst (generateExport h selectedPaths configuration))))"
    by (simp add: generateExport_metadata(3) tr)
  have blocks: "concat (map (fileBlock h configuration) vf)
     = concat (map (fileBlock h configuration) (take i vf))
       @ fileBlock h configuration filePath
       @ concat (map (fileBlock h configuration) (drop (Suc i) vf))"
    using blocks_at [OF i, of "fileBlock h configuration"] by (simp add: at)
  have doc: "content (fst (generateExport h selectedPaths configuration))
     = generateHeader h configuration
       @ (if includeDirectoryStructure configuration
          then generateDirectoryStructure h selectedPaths else [])
       @ concat (map (fileBlock h configuration) (take i vf))
       @ fileBlock h configuration filePath
       @ concat (map (fileBlock h configuration) (drop (Suc i) vf))
       @ generateFooter configuration
           (totalFiles (metadata (fst (generateExport h selectedPaths configuration))))
           (totalSize (metadata (fst (generateExport h selectedPaths configuration))))
           (truncatedFiles (metadata (fst (generateExport h selectedPaths configuration))))"
    using generateExport_content [of h selectedPaths configuration]
    by (simp add: vf_def [symmetric] blocks)
  have first: "(if byteLength > maxFileSize configuration
          then count_list (truncatedFiles (metadata (fst (generateExport h selectedPaths configuration))))
                 filePath = 1
          else filePath \<notin> set (truncatedFiles (metadata (fst (generateExport h selectedPaths configuration)))))"
    using cnt notin by simp
  show ?thesis
    using first doc
    unfolding fileBlock_read [OF assms(4,5)] vf_def
    by (simp only: append_assoc simp_thms)
qed

text \<open>
  The theorem on the example workspace: \<^verbatim>\<open>a.ts\<close> is ten bytes long and the limit is five
  bytes, so the body of \<^verbatim>\<open>a.ts\<close> in the document is its first four characters and the
  marker, and \<^verbatim>\<open>a.ts\<close> is listed once.
\<close>

theorem truncation_recorded_once_witness:
  "distinct (filterValidFiles exampleHost [''a.ts'', ''bad.ts'', ''b.ts''])
   \<and> (0::nat) < length (filterValidFiles exampleHost [''a.ts'', ''bad.ts'', ''b.ts''])
   \<and> filterValidFiles exampleHost [''a.ts'', ''bad.ts'', ''b.ts''] ! 0 = ''a.ts''
   \<and> getFileStats exampleHost ''a.ts'' = Inr 10
   \<and> getFileContent exampleHost ''a.ts'' = Inr ''0123456789''
   \<and> count_list (truncatedFiles (metadata (fst (generateExport exampleHost
         [''a.ts'', ''bad.ts'', ''b.ts''] exampleConfiguration)))) ''a.ts'' = 1
   \<and> content (fst (generateExport exampleHost [''a.ts'', ''bad.ts'', ''b.ts''] exampleConfiguration))
       = ''# LLM Context Export\<newline>\<newline>Generated on: 2024-01-01T00:00:00.000Z\<newline>\<newline>---\<newline>\<newline>''
         @ ''## File: a.ts\<newline>\<newline>```typescript\<newline>0123\<newline>\<newline>[... Content truncated due to size limit ...]\<newline>```\<newline>\<newline>''
         @ ''## File: bad.ts\<newline>\<newline>**Error**: EACCES\<newline>\<newline>''
         @ ''## File: b.ts\<newline>\<newline>```typescript\<newline>0123\<newline>\<newline>[... Content truncated due to size limit ...]\<newline>```\<newline>\<newline>''
         @ ''\<newline>---\<newline>\<newline>## Export Summary\<newline>\<newline>- **Total Files**: 2\<newline>- **Total Size**: 0 KB\<newline>''
         @ ''- **Truncated Files**: 2\<newline>\<newline>### Truncated Files:\<newline>- a.ts\<newline>- b.ts\<newline>''"
proof -
  have d: "distinct (filterValidFiles exampleHost [''a.ts'', ''bad.ts'', ''b.ts''])"
    by (simp add: example_valid)
  have i: "(0::nat) < length (filterValidFiles exampleHost [''a.ts'', ''bad.ts'', ''b.ts''])"
    by (simp add: example_valid)
  have at: "filterValidFiles exampleHost [''a.ts'', ''bad.ts'', ''b.ts''] ! 0 = ''a.ts''"
    by (simp add: example_valid)
  have st: "getFileStats exampleHost ''a.ts'' = Inr 10" by (simp add: exampleHost_def)
  have ct: "getFileContent exampleHost ''a.ts'' = Inr ''0123456789''" by (simp add: exampleHost_def)
  have c: "(10::nat) > maxFileSize exampleConfiguration" "format exampleConfiguration = Md"
    "\<not> includeDirectoryStructure exampleConfiguration"
    "take (maxFileSize exampleConfiguration * 4 div 5) ''0123456789'' = ''0123''"
    by (simp_all add: exampleConfiguration_def)
  have others: "fileBlock exampleHost exampleConfiguration ''bad.ts''
      = ''## File: bad.ts\<newline>\<newline>**Error**: EACCES\<newline>\<newline>''"
    "fileBlock exampleHost exampleConfiguration ''b.ts''
      = ''## File: b.ts\<newline>\<newline>```typescript\<newline>0123\<newline>\<newline>[... Content truncated due to size limit ...]\<newline>```\<newline>\<newline>''"
    by (simp_all add: fileBlock_def processFile_def formatError_def formatFileContent_def
        truncationMarker_def exampleHost_def exampleConfiguration_def language_ts)
  have meta: "totalFiles (metadata (fst (generateExport exampleHost [''a.ts'', ''bad.ts'', ''b.ts'']
                 exampleConfiguration))) = 2"
    "totalSize (metadata (fst (generateExport exampleHost [''a.ts'', ''bad.ts'', ''b.ts'']
                 exampleConfiguration))) = 20"
    "truncatedFiles (metadata (fst (generateExport exampleHost [''a.ts'', ''bad.ts'', ''b.ts'']
                 exampleConfiguration))) = [''a.ts'', ''b.ts'']"
    unfolding generateExport_metadata example_valid
    by (simp_all add: processed_def wasTruncated_def
        statSize_def processFile_def exampleHost_def exampleConfiguration_def)
  have footer: "generateFooter exampleConfiguration 2 20 [''a.ts'', ''b.ts'']
      = ''\<newline>---\<newline>\<newline>## Export Summary\<newline>\<newline>- **Total Files**: 2\<newline>- **Total Size**: 0 KB\<newline>''
         @ ''- **Truncated Files**: 2\<newline>\<newline>### Truncated Files:\<newline>- a.ts\<newline>- b.ts\<newline>''"
    by (simp add: generateFooter_def exampleConfiguration_def digits)
  have header: "generateHeader exampleHost exampleConfiguration
      = ''# LLM Context Export\<newline>\<newline>Generated on: 2024-01-01T00:00:00.000Z\<newline>\<newline>---\<newline>\<newline>''"
    by (simp add: generateHeader_def exampleHost_def exampleConfiguration_def)
  from truncation_recorded_once [OF d i at st ct, of exampleConfiguration] d i at st ct
  show ?thesis
    by (simp add: c example_valid others meta footer header language_ts)
qed

subsection \<open>Read errors\<close>

text \<open>
  C6. If the file system throws when it is asked for the size of the \<open>i\<close>-th eligible file,
  or delivers the size and throws when it is asked for the content, the run still returns its
  result. The document is the header, the optional directory structure, the blocks of the
  files before it, an error block that names the file and carries the message of the
  exception, the blocks of the files after it and the footer; \<^verbatim>\<open>totalFiles\<close> and
  \<^verbatim>\<open>totalSize\<close> count the files before and after it whose size and content were delivered,
  and the file is not listed as truncated.
\<close>

theorem read_error_inline_block:
  assumes "i < length (filterValidFiles h selectedPaths)"
    and "filterValidFiles h selectedPaths ! i = filePath"
    and "getFileStats h filePath = Inl message
         \<or> (\<exists>byteLength. getFileStats h filePath = Inr byteLength)
            \<and> getFileContent h filePath = Inl message"
  shows "content (fst (generateExport h selectedPaths configuration))
           = generateHeader h configuration
             @ (if includeDirectoryStructure configuration
                then generateDirectoryStructure h selectedPaths else [])
             @ concat (map (fileBlock h configuration) (take i (filterValidFiles h selectedPaths)))
             @ (case format configuration of
                  Md \<Rightarrow> ''## File: '' @ filePath @ ''\<newline>\<newline>**Error**: '' @ message
                         @ ''\<newline>\<newline>''
                | Txt \<Rightarrow> separator filePath @ ''\<newline>File: '' @ filePath @ ''\<newline>''
                         @ separator filePath @ ''\<newline>\<newline>Error: '' @ message
                         @ ''\<newline>\<newline>'')
             @ concat (map (fileBlock h configuration)
                         (drop (Suc i) (filterValidFiles h selectedPaths)))
             @ generateFooter configuration
                 (totalFiles (metadata (fst (generateExport h selectedPaths configuration))))
                 (totalSize (metadata (fst (generateExport h selectedPaths configuration))))
                 (truncatedFiles (metadata (fst (generateExport h selectedPaths configuration))))
         \<and> totalFiles (metadata (fst (generateExport h selectedPaths configuration)))
             = length (filter (readable h) (take i (filterValidFiles h selectedPaths)))
               + length (filter (readable h) (drop (Suc i) (filterValidFiles h selectedPaths)))
         \<and> totalSize (metadata (fst (generateExport h selectedPaths configuration)))
             = sum_list (map (statSize h)
                  (filter (readable h) (take i (filterValidFiles h selectedPaths))))
               + sum_list (map (statSize h)
                  (filter (readable h) (drop (Suc i) (filterValidFiles h selectedPaths))))
         \<and> filePath \<notin> set (truncatedFiles (metadata (fst (generateExport h selectedPaths configuration))))"
proof -
  define vf where "vf = filterValidFiles h selectedPaths"
  have i: "i < length vf" and at: "vf ! i = filePath"
    using assms(1,2) by (simp_all add: vf_def)
  have failed: "\<not> readable h (vf ! i)"
    using assms(3) by (auto simp add: readable_def at)
  have nottr: "\<not> wasTruncated h configuration filePath"
    using assms(3) by (auto simp add: wasTruncated_def processFile_def)
  have blocks: "concat (map (fileBlock h configuration) vf)
     = concat (map (fileBlock h configuration) (take i vf))
       @ fileBlock h configuration filePath
       @ concat (map (fileBlock h configuration) (drop (Suc i) vf))"
    using blocks_at [OF i, of "fileBlock h configuration"] by (simp add: at)
  have kept: "filter (readable h) vf
                = filter (readable h) (take i vf) @ filter (readable h) (drop (Suc i) vf)"
    using i failed by (rule filter_at)
  have p: "processed h configuration = readable h"
    by (rule ext) (rule processed_readable)
  have doc: "content (fst (generateExport h selectedPaths configuration))
     = generateHeader h configuration
       @ (if includeDirectoryStructure configuration
          then generateDirectoryStructure h selectedPaths else [])
       @ concat (map (fileBlock h configuration) (take i vf))
       @ fileBlock h configuration filePath
       @ concat (map (fileBlock h configuration) (drop (Suc i) vf))
       @ generateFooter configuration
           (totalFiles (metadata (fst (generateExport h selectedPaths configuration))))
           (totalSize (metadata (fst (generateExport h selectedPaths configuration))))
           (truncatedFiles (metadata (fst (generateExport h selectedPaths configuration))))"
    using generateExport_content [of h selectedPaths configuration]
    by (simp add: vf_def [symmetric] blocks)
  have files: "totalFiles (metadata (fst (generateExport h selectedPaths configuration)))
             = length (filter (readable h) (take i vf)) + length (filter (readable h) (drop (Suc i) vf))"
    by (simp add: generateExport_metadata(1) p vf_def [symmetric] kept)
  have bytes: "totalSize (metadata (fst (generateExport h selectedPaths configuration)))
             = sum_list (map (statSize h) (filter (readable h) (take i vf)))
               + sum_list (map (statSize h) (filter (readable h) (drop (Suc i) vf)))"
    by (simp add: generateExport_metadata(2) p vf_def [symmetric] kept)
  have notin: "filePath \<notin> set (truncatedFiles (metadata (fst (generateExport h selectedPaths configuration))))"
    by (simp add: generateExport_metadata(3) nottr)
  show ?thesis
    using doc files bytes notin
    unfolding fileBlock_failed [OF assms(3)] vf_def
    by (simp only: append_assoc simp_thms)
qed

text \<open>
  The theorem on the workspace in which the content of the second of three files cannot be
  read: the document carries the error block between the blocks of the other two files, and
  the totals count those two.
\<close>

theorem read_error_inline_block_witness:
  "(1::nat) < length (filterValidFiles unreadableHost [''a.ts'', ''bad.ts'', ''b.ts''])
   \<and> filterValidFiles unreadableHost [''a.ts'', ''bad.ts'', ''b.ts''] ! 1 = ''bad.ts''
   \<and> (getFileStats unreadableHost ''bad.ts'' = Inl ''EACCES: permission denied''
       \<or> (\<exists>byteLength. getFileStats unreadableHost ''bad.ts'' = Inr byteLength)
          \<and> getFileContent unreadableHost ''bad.ts'' = Inl ''EACCES: permission denied'')
   \<and> content (fst (generateExport unreadableHost [''a.ts'', ''bad.ts'', ''b.ts'']
        (exampleConfiguration \<lparr> maxFileSize := 1024 \<rparr>)))
       = ''# LLM Context Export\<newline>\<newline>Generated on: 2024-01-01T00:00:00.000Z\<newline>\<newline>---\<newline>\<newline>''
         @ ''## File: a.ts\<newline>\<newline>```typescript\<newline>0123456789\<newline>```\<newline>\<newline>''
         @ ''## File: bad.ts\<newline>\<newline>**Error**: EACCES: permission denied\<newline>\<newline>''
         @ ''## File: b.ts\<newline>\<newline>```typescript\<newline>0123456789\<newline>```\<newline>\<newline>''
         @ ''\<newline>---\<newline>\<newline>## Export Summary\<newline>\<newline>- **Total Files**: 2\<newline>- **Total Size**: 0 KB\<newline>''
   \<and> totalFiles (metadata (fst (generateExport unreadableHost [''a.ts'', ''bad.ts'', ''b.ts'']
        (exampleConfiguration \<lparr> maxFileSize := 1024 \<rparr>)))) = 2
   \<and> totalSize (metadata (fst (generateExport unreadableHost [''a.ts'', ''bad.ts'', ''b.ts'']
        (exampleConfiguration \<lparr> maxFileSize := 1024 \<rparr>)))) = 20"
proof -
  let ?c = "exampleConfiguration \<lparr> maxFileSize := 1024 \<rparr>"
  have i: "(1::nat) < length (filterValidFiles unreadableHost [''a.ts'', ''bad.ts'', ''b.ts''])"
    by (simp add: unreadable_valid)
  have at: "filterValidFiles unreadableHost [''a.ts'', ''bad.ts'', ''b.ts''] ! 1 = ''bad.ts''"
    by (simp add: unreadable_valid)
  have bad: "getFileStats unreadableHost ''bad.ts'' = Inl ''EACCES: permission denied''
       \<or> (\<exists>byteLength. getFileStats unreadableHost ''bad.ts'' = Inr byteLength)
          \<and> getFileContent unreadableHost ''bad.ts'' = Inl ''EACCES: permission denied''"
    by (simp add: unreadableHost_def)
  have c: "format ?c = Md" "\<not> includeDirectoryStructure ?c"
    by (simp_all add: exampleConfiguration_def)
  have others: "fileBlock unreadableHost ?c ''a.ts''
      = ''## File: a.ts\<newline>\<newline>```typescript\<newline>0123456789\<newline>```\<newline>\<newline>''"
    "fileBlock unreadableHost ?c ''b.ts''
      = ''## File: b.ts\<newline>\<newline>```typescript\<newline>0123456789\<newline>```\<newline>\<newline>''"
    by (simp_all add: fileBlock_def processFile_def formatFileContent_def
        unreadableHost_def exampleConfiguration_def language_ts)
  have ok: "readable unreadableHost ''a.ts''" "readable unreadableHost ''b.ts''"
    "statSize unreadableHost ''a.ts'' = 10" "statSize unreadableHost ''b.ts'' = 10"
    by (simp_all add: readable_def statSize_def unreadableHost_def)
  have tr: "truncatedFiles (metadata (fst (generateExport unreadableHost [''a.ts'', ''bad.ts'', ''b.ts''] ?c))) = []"
    unfolding generateExport_metadata unreadable_valid
    by (simp add: wasTruncated_def processFile_def unreadableHost_def exampleConfiguration_def)
  have footer: "generateFooter ?c 2 20 []
      = ''\<newline>---\<newline>\<newline>## Export Summary\<newline>\<newline>- **Total Files**: 2\<newline>- **Total Size**: 0 KB\<newline>''"
    by (simp add: generateFooter_def exampleConfiguration_def digits)
  have header: "generateHeader unreadableHost ?c
      = ''# LLM Context Export\<newline>\<newline>Generated on: 2024-01-01T00:00:00.000Z\<newline>\<newline>---\<newline>\<newline>''"
    by (simp add: generateHeader_def unreadableHost_def exampleConfiguration_def)
  have totals: "totalFiles (metadata (fst (generateExport unreadableHost [''a.ts'', ''bad.ts'', ''b.ts''] ?c))) = 2"
    "totalSize (metadata (fst (generateExport unreadableHost [''a.ts'', ''bad.ts'', ''b.ts''] ?c))) = 20"
    using read_error_inline_block [OF i at bad, of ?c]
    by (simp_all add: unreadable_valid ok)
  from read_error_inline_block [OF i at bad, of ?c] i at bad
  show ?thesis
    by (simp add: c totals unreadable_valid others tr footer header)
qed

subsection \<open>Progress\<close>

text \<open>
  C7. The claim says that the progress values of a run never decrease and end with 100, for
  either output method. With clipboard output, \<^verbatim>\<open>generateExport\<close> has already reported 100
  when \<^verbatim>\<open>generateAndExport\<close> reports 95 and maps the clipboard progress into the "remaining
  5%": the values of a run over one file are 20, 95, 100, 95, 95, 97.5, 100.
\<close>

theorem clipboard_progress_falls_back:
  "snd (snd (generateAndExport exampleHost acceptingSink [''a.ts''] exampleConfiguration))
     = [20, 95, 100, 95, 95, 97.5, 100]
   \<and> \<not> sorted (snd (snd (generateAndExport exampleHost acceptingSink [''a.ts''] exampleConfiguration)))"
proof -
  have "snd (snd (generateAndExport exampleHost acceptingSink [''a.ts''] exampleConfiguration))
     = [20, 95, 100, 95, 95, 97.5, 100]"
    by (simp add: eval_export eval_classifier exampleHost_def exampleConfiguration_def
        acceptingSink_def Let_def)
  then show ?thesis by simp
qed

text \<open>
  With file output the values do rise: they never decrease, lie between 0 and 100 and end
  with 100.
\<close>

lemma file_output_progress:
  assumes "outputMethod c = FileOutput"
  shows "sorted (snd (snd (generateAndExport h s sel c)))
         \<and> (\<forall>p \<in> set (snd (snd (generateAndExport h s sel c))). 0 \<le> p \<and> p \<le> 100)
         \<and> last (snd (snd (generateAndExport h s sel c))) = 100"
proof -
  let ?n = "length (filterValidFiles h sel)"
  have eq: "snd (snd (generateAndExport h s sel c))
              = (if includeDirectoryStructure c then [10] else [])
                @ map (fileProgress ?n) [0..<?n] @ [95, 100]"
    using assms generateExport_reported [of h sel c]
    by (cases "generateExport h sel c") (simp add: generateAndExport_def)
  have b: "\<And>p. p \<in> set (map (fileProgress ?n) [0..<?n]) \<Longrightarrow> 20 \<le> p \<and> p \<le> 90"
    using fileProgress_bounds by auto
  have "sorted ((if includeDirectoryStructure c then [10] else [])
                @ map (fileProgress ?n) [0..<?n] @ [95, 100])"
    using b sorted_fileProgress [of ?n] by (fastforce simp: sorted_append)
  moreover have "\<forall>p \<in> set ((if includeDirectoryStructure c then [10] else [])
                @ map (fileProgress ?n) [0..<?n] @ [95, 100]). 0 \<le> p \<and> p \<le> 100"
    using b by fastforce
  ultimately show ?thesis by (simp add: eq)
qed

subsection \<open>Validation\<close>

text \<open>
  C8. The claim says that a configuration whose \<^verbatim>\<open>maxFileSize\<close> is not a strictly positive
  number, or whose pattern list is present but no array, is rejected and never coerced. The
  configuration with \<^verbatim>\<open>maxFileSize = NaN\<close> and \<^verbatim>\<open>excludePatterns = ''\<close> is invalid by these
  words, yet the validator returns it with \<^verbatim>\<open>maxFileSize\<close> replaced by the default 1048576
  and \<^verbatim>\<open>excludePatterns\<close> by the empty array.
\<close>

theorem validation_coerces_nan:
  "raw_maxFileSize nanConfiguration \<noteq> JUndefined
   \<and> \<not> strictlyPositiveNumber (raw_maxFileSize nanConfiguration)
   \<and> raw_excludePatterns nanConfiguration \<noteq> JUndefined
   \<and> \<not> isArray (raw_excludePatterns nanConfiguration)
   \<and> validateExportConfiguration nanConfiguration
       = Inr (nanConfiguration \<lparr> raw_maxFileSize := JNum 1048576,
                                  raw_excludePatterns := JArray [] \<rparr>)"
  by (simp add: validateExportConfiguration_def validationErrors_def
      nanConfiguration_def jsOr_def nullish_def)

text \<open>
  What the validator does reject: an enum field outside its allowed set, a supplied numeric
  field other than \<^verbatim>\<open>NaN\<close> that is not a strictly positive number, and a truthy pattern list
  that is no array.
\<close>

lemma validate_rejects:
  "raw_format config \<notin> {JStr ''txt'', JStr ''md''}
   \<or> raw_outputMethod config \<notin> {JStr ''file'', JStr ''clipboard''}
   \<or> (raw_maxFileSize config \<noteq> JUndefined \<and> raw_maxFileSize config \<noteq> JNaN
       \<and> \<not> strictlyPositiveNumber (raw_maxFileSize config))
   \<or> (raw_truncateThreshold config \<noteq> JUndefined \<and> raw_truncateThreshold config \<noteq> JNaN
       \<and> \<not> strictlyPositiveNumber (raw_truncateThreshold config))
   \<or> (truthy (raw_excludePatterns config) \<and> \<not> isArray (raw_excludePatterns config))
   \<or> (truthy (raw_includePatterns config) \<and> \<not> isArray (raw_includePatterns config))
   \<Longrightarrow> \<exists>message. validateExportConfiguration config = Inl (ValidationError message)"
  apply (simp add: validateExportConfiguration_def validationErrors_def Let_def)
  apply (cases "raw_maxFileSize config"; cases "raw_truncateThreshold config")
  apply (auto)
  done

subsection \<open>Cancellation\<close>

text \<open>
  C9 (as stated, refuted). The claim says that declining the confirmation for very large
  content is an outcome that is not reported as a failure and carries no error. The result
  for a declining user has \<^verbatim>\<open>success = false\<close> and an \<^verbatim>\<open>error\<close> text.
\<close>

theorem cancellation_counterexample:
  "success (fst (copyToClipboardWithProgress decliningSink (replicate 10485761 CHR ''x''))) = False
   \<and> error (fst (copyToClipboardWithProgress decliningSink (replicate 10485761 CHR ''x'')))
       = Some ''Operation cancelled by user''"
  by (simp add: copyToClipboardWithProgress_def decliningSink_def)

text \<open>
  C9 (amended). \<^verbatim>\<open>copyToClipboardWithProgress\<close> returns the result
  \<^verbatim>\<open>{ success: false, error: 'Operation cancelled by user' }\<close> exactly when the content is
  longer than ten times 1024 * 1024 characters and the user does not choose to continue, and
  exactly then it calls neither \<^verbatim>\<open>clipboard.writeText\<close> nor \<^verbatim>\<open>fs.writeFile\<close>: a
  cancellation has the shape of a failure and differs from one by its error text.
\<close>

theorem cancellation_result:
  "(fst (copyToClipboardWithProgress s text)
      = \<lparr> success = False, error = Some ''Operation cancelled by user'', fallbackUsed = None \<rparr>)
     = (length text > 10 * (1024 * 1024) \<and> \<not> continueLarge s)
   \<and> (snd (snd (copyToClipboardWithProgress s text)) = [])
     = (length text > 10 * (1024 * 1024) \<and> \<not> continueLarge s)"
  by (auto simp add: copyToClipboardWithProgress_def copyToClipboard_def Let_def
      split: option.splits sum.splits prod.splits if_splits)

text \<open>
  The theorem for a text of 10485761 characters and a user who declines.
\<close>

theorem cancellation_result_witness:
  "fst (copyToClipboardWithProgress decliningSink (replicate 10485761 CHR ''x''))
     = \<lparr> success = False, error = Some ''Operation cancelled by user'', fallbackUsed = None \<rparr>
   \<and> snd (snd (copyToClipboardWithProgress decliningSink (replicate 10485761 CHR ''x''))) = []"
  using cancellation_result [of decliningSink "replicate 10485761 CHR ''x''"]
  by (simp add: decliningSink_def)

subsection \<open>Total size\<close>

text \<open>
  C10. The \<^verbatim>\<open>totalSize\<close> of the metadata is the sum of the sizes that the file system
  reports for the eligible files whose size and content it delivers, truncated or not, and the
  document ends with the line of the footer that gives this sum in kilobytes (rounded half
  up), followed only by the list of the truncated files. For a file of two million bytes and
  a limit of five bytes, \<^verbatim>\<open>totalSize\<close> is 2000000, the document holds four characters of
  the file and reports 1953 KB, and \<^verbatim>\<open>totalSize\<close> exceeds the length of the document.
\<close>

theorem total_size_counts_full_files:
  "totalSize (metadata (fst (generateExport h selectedPaths configuration)))
     = sum_list (map (statSize h) (filter (readable h) (filterValidFiles h selectedPaths)))
   \<and> suffix
       (case format configuration of
          Md \<Rightarrow> ''- **Total Size**: ''
                 @ string_of_nat
                     ((sum_list (map (statSize h)
                         (filter (readable h) (filterValidFiles h selectedPaths))) + 512) div 1024)
                 @ '' KB\<newline>''
                 @ (if truncatedFiles (metadata (fst (generateExport h selectedPaths configuration))) = []
                    then []
                    else ''- **Truncated Files**: ''
                         @ string_of_nat (length (truncatedFiles
                             (metadata (fst (generateExport h selectedPaths configuration)))))
                         @ ''\<newline>\<newline>### Truncated Files:\<newline>''
                         @ concat (map (\<lambda>file. ''- '' @ file @ ''\<newline>'')
                             (truncatedFiles (metadata (fst (generateExport h selectedPaths configuration))))))
        | Txt \<Rightarrow> ''- Total Size: ''
                 @ string_of_nat
                     ((sum_list (map (statSize h)
                         (filter (readable h) (filterValidFiles h selectedPaths))) + 512) div 1024)
                 @ '' KB\<newline>''
                 @ (if truncatedFiles (metadata (fst (generateExport h selectedPaths configuration))) = []
                    then []
                    else ''- Truncated Files: ''
                         @ string_of_nat (length (truncatedFiles
                             (metadata (fst (generateExport h selectedPaths configuration)))))
                         @ ''\<newline>\<newline>Truncated Files:\<newline>''
                         @ concat (map (\<lambda>file. ''  - '' @ file @ ''\<newline>'')
                             (truncatedFiles (metadata (fst (generateExport h selectedPaths configuration)))))))
       (content (fst (generateExport h selectedPaths configuration)))
   \<and> totalSize (metadata (fst (generateExport largeFileHost [''big.ts''] exampleConfiguration)))
       = 2000000
   \<and> content (fst (generateExport largeFileHost [''big.ts''] exampleConfiguration))
       = ''# LLM Context Export\<newline>\<newline>Generated on: 2024-01-01T00:00:00.000Z\<newline>\<newline>---\<newline>\<newline>''
         @ ''## File: big.ts\<newline>\<newline>```typescript\<newline>xxxx\<newline>\<newline>[... Content truncated due to size limit ...]\<newline>```\<newline>\<newline>''
         @ ''\<newline>---\<newline>\<newline>## Export Summary\<newline>\<newline>- **Total Files**: 1\<newline>- **Total Size**: 1953 KB\<newline>''
         @ ''- **Truncated Files**: 1\<newline>\<newline>### Truncated Files:\<newline>- big.ts\<newline>''
   \<and> length (content (fst (generateExport largeFileHost [''big.ts''] exampleConfiguration)))
       < totalSize (metadata (fst (generateExport largeFileHost [''big.ts''] exampleConfiguration)))"
proof -
  have p: "processed h configuration = readable h"
    by (rule ext) (rule processed_readable)
  have bytes: "totalSize (metadata (fst (generateExport h selectedPaths configuration)))
     = sum_list (map (statSize h) (filter (readable h) (filterValidFiles h selectedPaths)))"
    by (simp add: generateExport_metadata(2) p)
  have "suffix (generateFooter configuration
                (totalFiles (metadata (fst (generateExport h selectedPaths configuration))))
                (totalSize (metadata (fst (generateExport h selectedPaths configuration))))
                (truncatedFiles (metadata (fst (generateExport h selectedPaths configuration)))))
       (content (fst (generateExport h selectedPaths configuration)))"
    by (rule suffixI [where zs = "generateHeader h configuration
               @ (if includeDirectoryStructure configuration
                  then generateDirectoryStructure h selectedPaths else [])
               @ concat (map (fileBlock h configuration) (filterValidFiles h selectedPaths))"])
       (use generateExport_content [of h selectedPaths configuration] in simp)
  from suffix_order.trans [OF footer_size_line this]
  have line: "suffix
       (case format configuration of
          Md \<Rightarrow> ''- **Total Size**: ''
                 @ string_of_nat
                     ((sum_list (map (statSize h)
                         (filter (readable h) (filterValidFiles h selectedPaths))) + 512) div 1024)
                 @ '' KB\<newline>''
                 @ (if truncatedFiles (metadata (fst (generateExport h selectedPaths configuration))) = []
                    then []
                    else ''- **Truncated Files**: ''
                         @ string_of_nat (length (truncatedFiles
                             (metadata (fst (generateExport h selectedPaths configuration)))))
                         @ ''\<newline>\<newline>### Truncated Files:\<newline>''
                         @ concat (map (\<lambda>file. ''- '' @ file @ ''\<newline>'')
                             (truncatedFiles (metadata (fst (generateExport h selectedPaths configuration))))))
        | Txt \<Rightarrow> ''- Total Size: ''
                 @ string_of_nat
                     ((sum_list (map (statSize h)
                         (filter (readable h) (filterValidFiles h selectedPaths))) + 512) div 1024)
                 @ '' KB\<newline>''
                 @ (if truncatedFiles (metadata (fst (generateExport h selectedPaths configuration))) = []
                    then []
                    else ''- Truncated Files: ''
                         @ string_of_nat (length (truncatedFiles
                             (metadata (fst (generateExport h selectedPaths configuration)))))
                         @ ''\<newline>\<newline>Truncated Files:\<newline>''
                         @ concat (map (\<lambda>file. ''  - '' @ file @ ''\<newline>'')
                             (truncatedFiles (metadata (fst (generateExport h selectedPaths configuration)))))))
       (content (fst (generateExport h selectedPaths configuration)))"
    unfolding bytes .
  have vf: "filterValidFiles largeFileHost [''big.ts''] = [''big.ts'']"
    by (simp add: filterValidFiles_def largeFileHost_def eval_classifier)
  have big: "totalSize (metadata (fst (generateExport largeFileHost [''big.ts''] exampleConfiguration)))
       = 2000000"
    unfolding generateExport_metadata(2) vf
    by (simp add: largeFileHost_def processed_def processFile_def statSize_def)
  have short: "length (content (fst (generateExport largeFileHost [''big.ts''] exampleConfiguration)))
       < totalSize (metadata (fst (generateExport largeFileHost [''big.ts''] exampleConfiguration)))"
    unfolding large_file_document big by simp
  show ?thesis
    by (intro conjI bytes line big large_file_document short)
qed

subsection \<open>Selection toggles\<close>




subsection \<open>Children loaded under a selected directory\<close>




end
